theory Spec2Isabelle
  imports Complex_Main "HOL-Library.Monad_Syntax"
begin

section \<open>The DAO governance simulation (dao\_simulation\_ganache.py)\<close>

text \<open>
  Conventions of the embedding.
  \<^item> A Python \<open>float\<close> is modelled by the real number it denotes. Comparisons of doubles
    (and of a double with an \<open>int\<close>) are exact, so every test of the source is the same
    test on reals. The only arithmetic on floats in the source is \<open>round\<close> and one
    division of an \<open>int\<close> by \<open>1e18\<close>. The division is the division of doubles: the
    \<open>int\<close> is converted to the nearest double and the quotient is rounded to the nearest
    double (\<open>py_truediv\<close>). \<open>round\<close> rounds the exact value of its argument, half to
    even; its result is taken as the decimal it denotes.
  \<^item> A Python \<open>int\<close> is an \<open>int\<close>.
  \<^item> An exception is a value \<open>Inl e\<close>; a call that loops forever is \<open>None\<close>.
  \<^item> The process-wide random stream of module \<open>random\<close> and the ledger behind \<open>web3\<close>
    are the two pieces of mutable state. They are threaded explicitly through every
    function as a \<open>world\<close>.
  \<^item> The libraries \<open>random\<close>, \<open>web3\<close>, \<open>solcx\<close> and the Ganache node are not code of the
    repository. Whatever they decide freely (the draws, gas metering, gas price,
    reachability, failures) is a parameter of the model.
\<close>

subsection \<open>Module constants (lines 16--74)\<close>

definition NUM_RUNS :: int where "NUM_RUNS = 1000"
definition RANDOM_SEED :: int where "RANDOM_SEED = 42"

record stats =
  id_s :: int
  lat_mean :: real
  lat_std :: real
  comp_mean :: real
  comp_std :: real
  total_cost_mean :: real
  total_cost_std :: real
  roi_mean :: real
  roi_std :: real

definition DAO_STATS_items :: "(string \<times> stats) list" where
  "DAO_STATS_items =
    [(''DAO 1.0'', \<lparr>id_s = 1, lat_mean = 15.8, lat_std = 1.0, comp_mean = 71.0, comp_std = 3.0,
        total_cost_mean = 119000, total_cost_std = 5600, roi_mean = 1.02, roi_std = 0.5\<rparr>),
     (''DAO 2.0'', \<lparr>id_s = 2, lat_mean = 9.4, lat_std = 1.0, comp_mean = 83.0, comp_std = 3.0,
        total_cost_mean = 90000, total_cost_std = 4500, roi_mean = 4.0, roi_std = 0.5\<rparr>),
     (''DAO 3.0'', \<lparr>id_s = 3, lat_mean = 4.2, lat_std = 1.1, comp_mean = 97.5, comp_std = 2.4,
        total_cost_mean = 55000, total_cost_std = 2600, roi_mean = 7.5, roi_std = 0.5\<rparr>)]"

definition DAO_STATS :: "string \<rightharpoonup> stats" where
  "DAO_STATS = map_of DAO_STATS_items"

definition OFFCHAIN_MEAN :: real where "OFFCHAIN_MEAN = 300"
definition OFFCHAIN_STD :: real where "OFFCHAIN_STD = 40"
definition OFFCHAIN_MIN :: real where "OFFCHAIN_MIN = 170"
definition OFFCHAIN_MAX :: real where "OFFCHAIN_MAX = 420"
definition LATENCY_MIN :: real where "LATENCY_MIN = 1.5"
definition LATENCY_MAX :: real where "LATENCY_MAX = 19.0"
definition COMPLIANCE_MIN :: real where "COMPLIANCE_MIN = 60"
definition COMPLIANCE_MAX :: real where "COMPLIANCE_MAX = 100"
definition ROI_MIN :: real where "ROI_MIN = -0.5"
definition ROI_MAX :: real where "ROI_MAX = 9.0"
definition COMPLIANCE_VIOLATION_THRESHOLD :: real where
  "COMPLIANCE_VIOLATION_THRESHOLD = 80.0"

subsection \<open>Python values and errors\<close>

datatype py_error =
    ConnectionError string
  | RuntimeError string
  | KeyError string
  | IndexError
  | Web3Error
  | SolcError
  | OverflowError
  | ZeroDivisionError

datatype cell = PyInt int | PyFloat real | PyStr string

text \<open>A result row is a Python \<open>dict\<close>; its insertion order is the column order of the
  table, so it is an association list.\<close>

type_synonym row = "(string \<times> cell) list"

text \<open>Python's \<open>round\<close> on a float rounds the exact value to the nearest integer,
  a tie going to the even neighbour.\<close>

definition round_half_even :: "real \<Rightarrow> int" where
  "round_half_even y =
     (let f = \<lfloor>y\<rfloor>; d = y - of_int f
      in if d < 1/2 then f
         else if 1/2 < d then f + 1
         else if even f then f else f + 1)"

text \<open>\<open>round(x, ndigits)\<close>: the multiple of \<open>10 ** -ndigits\<close> nearest to \<open>x\<close>, ties to even.\<close>

definition py_round :: "real \<Rightarrow> nat \<Rightarrow> real" where
  "py_round x ndigits = of_int (round_half_even (x * 10 ^ ndigits)) / 10 ^ ndigits"

text \<open>\<open>n.bit_length()\<close> of an integer \<open>n \<ge> 0\<close>: the number of its binary digits.\<close>

function bit_length :: "int \<Rightarrow> nat" where
  "bit_length n = (if n \<le> 0 then 0 else Suc (bit_length (n div 2)))"
  by pat_completeness auto
termination
  by (relation "measure nat") auto

declare bit_length.simps [simp del]

text \<open>The binary exponent of a positive real: the \<open>e\<close> with \<open>2^e \<le> x < 2^(e+1)\<close>. For
  \<open>x \<ge> 1\<close> it is one less than the bit length of the integer part; for \<open>x < 1\<close> it is minus
  the least \<open>n\<close> with \<open>1 / x \<le> 2^n\<close>.\<close>

definition binary_exponent :: "real \<Rightarrow> int" where
  "binary_exponent x =
     (if 1 \<le> x then int (bit_length \<lfloor>x\<rfloor>) - 1
      else - int (bit_length (\<lceil>1 / x\<rceil> - 1)))"

definition pow2 :: "int \<Rightarrow> real" where
  "pow2 k = (if 0 \<le> k then 2 ^ nat k else 1 / 2 ^ nat (- k))"

text \<open>The double nearest to a real, a tie going to the even significand: the real is scaled
  to 53 binary digits before the point, rounded half to even, and scaled back. This is the
  rounding of IEEE 754 arithmetic wherever the result is a normal double, which is so for
  the one quotient the program computes (see \<open>py_truediv\<close>).\<close>

definition round_to_double :: "real \<Rightarrow> real" where
  "round_to_double x =
     (if x = 0 then 0
      else let e = binary_exponent \<bar>x\<bar>
           in of_int (round_half_even (x * pow2 (52 - e))) * pow2 (e - 52))"

text \<open>\<open>p / d\<close> for an \<open>int\<close> \<open>p\<close> and a \<open>float\<close> \<open>d\<close>. Python converts \<open>p\<close> to a double,
  which raises \<open>OverflowError\<close> when \<open>p\<close> rounds to \<open>2 ** 1024\<close> or beyond, and then
  divides the two doubles. With \<open>d = 1e18\<close>, the only divisor of the source, the quotient of
  a non-zero \<open>p\<close> lies between \<open>1e-18\<close> and \<open>1.8e290\<close> in size: it neither overflows nor is
  subnormal.\<close>

definition py_truediv :: "int \<Rightarrow> real \<Rightarrow> py_error + real" where
  "py_truediv p d =
     (if 2 ^ 1024 - 2 ^ 970 \<le> \<bar>p\<bar> then Inl OverflowError
      else if d = 0 then Inl ZeroDivisionError
      else Inr (round_to_double (round_to_double (of_int p) / d)))"

text \<open>\<open>xs[i]\<close>, where \<open>xs[-1]\<close> is the last element and an index outside
  \<open>-len(xs) .. len(xs) - 1\<close> raises \<open>IndexError\<close>.\<close>

definition py_index :: "'a list \<Rightarrow> int \<Rightarrow> py_error + 'a" where
  "py_index xs i =
     (if 0 \<le> i \<and> i < int (length xs) then Inr (xs ! nat i)
      else if i < 0 \<and> - int (length xs) \<le> i then Inr (xs ! nat (int (length xs) + i))
      else Inl IndexError)"

text \<open>\<open>xs * k\<close> on a list: \<open>k\<close> copies, none when \<open>k \<le> 0\<close>.\<close>

definition py_repeat :: "'a list \<Rightarrow> int \<Rightarrow> 'a list" where
  "py_repeat xs k = concat (replicate (nat k) xs)"

text \<open>\<open>xs[:n]\<close>: the first \<open>n\<close> elements; for negative \<open>n\<close> all but the last \<open>-n\<close>.\<close>

definition py_slice_to :: "'a list \<Rightarrow> int \<Rightarrow> 'a list" where
  "py_slice_to xs n =
     (if 0 \<le> n then take (nat n) xs else take (length xs - nat (- n)) xs)"

subsection \<open>The random stream\<close>

text \<open>Module \<open>random\<close> keeps one hidden generator state. \<open>random.seed(a)\<close> replaces it by
  a state that depends on \<open>a\<close> only; \<open>random.gauss(mu, sigma)\<close> returns a draw and advances it.
  Both are parameters: nothing is assumed about the generator.\<close>

record 'g py_random =
  seed :: "int \<Rightarrow> 'g"
  gauss :: "real \<Rightarrow> real \<Rightarrow> 'g \<Rightarrow> real \<times> 'g"

subsection \<open>The contract DAOGovernance (CONTRACT\_SOURCE, lines 76--117)\<close>

type_synonym address = nat

record Decision =
  proposalId :: int
  daoVersion :: int
  timestamp :: int
  executor :: address

datatype event = DecisionExecuted int int int address int

record DAOGovernance =
  decisionCount :: int
  decisions :: "int \<Rightarrow> Decision"

definition UINT256_MAX :: int where "UINT256_MAX = 2 ^ 256 - 1"
definition UINT8_MAX :: int where "UINT8_MAX = 2 ^ 8 - 1"

text \<open>Storage of a freshly created contract: every slot is zero.\<close>

definition DAOGovernance_init :: DAOGovernance where
  "DAOGovernance_init =
     \<lparr>decisionCount = 0,
      decisions = (\<lambda>_. \<lparr>proposalId = 0, daoVersion = 0, timestamp = 0, executor = 0\<rparr>)\<rparr>"

text \<open>\<open>executeDecision\<close>. Solidity 0.8 checks \<open>decisionCount += 1\<close>: on overflow the call
  reverts (\<open>None\<close>) and nothing is stored. Otherwise the new storage, the emitted event and
  the returned count.\<close>

definition executeDecision ::
  "int \<Rightarrow> int \<Rightarrow> address \<Rightarrow> int \<Rightarrow> DAOGovernance \<Rightarrow> (DAOGovernance \<times> event \<times> int) option" where
  "executeDecision pid ver msg_sender block_timestamp c =
     (if UINT256_MAX < decisionCount c + 1 then None
      else
        let n = decisionCount c + 1;
            c' = c\<lparr>decisionCount := n,
                   decisions := (decisions c)(n :=
                     \<lparr>proposalId = pid, daoVersion = ver,
                      timestamp = block_timestamp, executor = msg_sender\<rparr>)\<rparr>
        in Some (c', DecisionExecuted n pid ver msg_sender block_timestamp, n))"

subsection \<open>The ledger behind web3\<close>

text \<open>A transaction is a contract creation or a call of \<open>executeDecision\<close>
  (target contract, proposalId, daoVersion, sender).\<close>

datatype tx = Deploy address | ExecuteDecision address int int address

record receipt =
  gasUsed :: int
  contractAddress :: "address option"
  logs :: "event list"

text \<open>The chain: the storage of the deployed contracts and the mined transactions with
  their receipts, oldest first. A transaction hash is the position in that list.\<close>

record chain =
  code :: "address \<rightharpoonup> DAOGovernance"
  txs :: "(tx \<times> receipt) list"

text \<open>What the node decides: these are the parameters standing for Ganache.\<close>

record node =
  is_connected :: "chain \<Rightarrow> bool"
  accounts :: "chain \<Rightarrow> address list"
  gas_price :: "chain \<Rightarrow> int"
  gas_of :: "tx \<Rightarrow> chain \<Rightarrow> int"
  block_timestamp :: "chain \<Rightarrow> int"
  fresh_address :: "chain \<Rightarrow> address"
  refuses :: "tx \<Rightarrow> chain \<Rightarrow> bool"
  times_out :: "nat \<Rightarrow> chain \<Rightarrow> bool"

text \<open>\<open>contract.functions.executeDecision(proposal_id, dao_id)\<close>: web3 encodes the two
  Python integers as \<open>uint256\<close> and \<open>uint8\<close> and raises when one does not fit.\<close>

definition functions_executeDecision ::
  "address \<Rightarrow> int \<Rightarrow> int \<Rightarrow> py_error + (address \<Rightarrow> tx)" where
  "functions_executeDecision contract pid ver =
     (if 0 \<le> pid \<and> pid \<le> UINT256_MAX \<and> 0 \<le> ver \<and> ver \<le> UINT8_MAX
      then Inr (ExecuteDecision contract pid ver) else Inl Web3Error)"

text \<open>\<open>.transact({"from": sender})\<close>: the node refuses (nothing is mined), or the call
  reverts (nothing is mined), or the transaction is mined: it is appended with its
  receipt and the storage is updated. The hash returned is its position.\<close>

definition transact :: "node \<Rightarrow> tx \<Rightarrow> chain \<Rightarrow> py_error + (nat \<times> chain)" where
  "transact w3 t c =
     (if refuses w3 t c then Inl Web3Error
      else case t of
        Deploy sender \<Rightarrow>
          let a = fresh_address w3 c;
              r = \<lparr>gasUsed = gas_of w3 t c, contractAddress = Some a, logs = []\<rparr>
          in Inr (length (txs c),
                  c\<lparr>code := (code c)(a \<mapsto> DAOGovernance_init), txs := txs c @ [(t, r)]\<rparr>)
      | ExecuteDecision target pid ver sender \<Rightarrow>
          (case code c target of
             None \<Rightarrow> Inl Web3Error
           | Some st \<Rightarrow>
              (case executeDecision pid ver sender (block_timestamp w3 c) st of
                 None \<Rightarrow> Inl Web3Error
               | Some (st', ev, ret) \<Rightarrow>
                   let r = \<lparr>gasUsed = gas_of w3 t c, contractAddress = None, logs = [ev]\<rparr>
                   in Inr (length (txs c),
                           c\<lparr>code := (code c)(target \<mapsto> st'), txs := txs c @ [(t, r)]\<rparr>))))"

text \<open>\<open>w3.eth.wait_for_transaction_receipt(tx_hash)\<close>: the receipt stored with that
  transaction, unless the node times out or does not know the hash.\<close>

definition wait_for_transaction_receipt :: "node \<Rightarrow> nat \<Rightarrow> chain \<Rightarrow> py_error + receipt" where
  "wait_for_transaction_receipt w3 tx_hash c =
     (if times_out w3 tx_hash c then Inl Web3Error
      else if tx_hash < length (txs c) then Inr (snd (txs c ! tx_hash))
      else Inl Web3Error)"

subsection \<open>The state threaded through the program\<close>

record 'g world =
  rng :: 'g
  ledger :: chain

subsection \<open>The functions of the module (lines 119--228)\<close>

definition set_seed :: "'g py_random \<Rightarrow> int \<Rightarrow> 'g world \<Rightarrow> 'g world" where
  "set_seed rnd s w = w\<lparr>rng := seed rnd s\<rparr>"

definition connect_ganache :: "node \<Rightarrow> 'g world \<Rightarrow> py_error + node" where
  "connect_ganache w3 w =
     (if \<not> is_connected w3 (ledger w)
      then Inl (ConnectionError ''Could not connect to Ganache.'')
      else Inr w3)"

text \<open>\<open>compile_contract\<close> installs and runs the Solidity compiler, which is outside the
  repository: its outcome \<open>solc\<close> is a parameter, \<open>Inr ()\<close> standing for the ABI and bytecode
  of \<open>DAOGovernance\<close>.\<close>

definition compile_contract :: "py_error + unit \<Rightarrow> py_error + unit" where
  "compile_contract solc = solc"

definition deploy_contract ::
  "node \<Rightarrow> unit \<Rightarrow> address \<Rightarrow> 'g world \<Rightarrow> (py_error + address) \<times> 'g world" where
  "deploy_contract w3 abi_bytecode sender w =
     (case transact w3 (Deploy sender) (ledger w) of
        Inl e \<Rightarrow> (Inl e, w)
      | Inr (tx_hash, c) \<Rightarrow>
          let w1 = w\<lparr>ledger := c\<rparr> in
          (case wait_for_transaction_receipt w3 tx_hash c of
             Inl e \<Rightarrow> (Inl e, w1)
           | Inr receipt \<Rightarrow>
              (case contractAddress receipt of
                 None \<Rightarrow> (Inl Web3Error, w1)
               | Some a \<Rightarrow> (Inr a, w1))))"

partial_function (option) truncated_normal ::
  "(real \<Rightarrow> real \<Rightarrow> 'g \<Rightarrow> real \<times> 'g) \<Rightarrow> real \<Rightarrow> real \<Rightarrow> real \<Rightarrow> real \<Rightarrow> 'g \<Rightarrow> (real \<times> 'g) option"
where
  "truncated_normal gss mu sigma low high g =
     (case gss mu sigma g of
        (x, g') \<Rightarrow>
          if low \<le> x \<and> x \<le> high then Some (x, g')
          else truncated_normal gss mu sigma low high g')"

definition dao_sequence :: "int \<Rightarrow> string list" where
  "dao_sequence n =
     (let seq = [''DAO 1.0'', ''DAO 2.0'', ''DAO 3.0'']
      in py_slice_to (py_repeat seq ((n div 3) + 1)) n)"

text \<open>\<open>simulate_one\<close>. The two readings of \<open>time.time()\<close> (lines 170 and 173) are never
  used and have no effect; they are left out.\<close>

definition simulate_one ::
  "'g py_random \<Rightarrow> node \<Rightarrow> address \<Rightarrow> int \<Rightarrow> string \<Rightarrow> address \<Rightarrow> 'g world
     \<Rightarrow> ((py_error + row) \<times> 'g world) option" where
  "simulate_one rnd w3 contract idx label sender w =
     (case DAO_STATS label of
        None \<Rightarrow> Some (Inl (KeyError label), w)
      | Some s \<Rightarrow>
        let dao_id = id_s s;
            proposal_id = idx
        in
        (case functions_executeDecision contract proposal_id dao_id of
           Inl e \<Rightarrow> Some (Inl e, w)
         | Inr tx \<Rightarrow>
          (case transact w3 (tx sender) (ledger w) of
             Inl e \<Rightarrow> Some (Inl e, w)
           | Inr (tx_hash, c) \<Rightarrow>
            (case wait_for_transaction_receipt w3 tx_hash c of
               Inl e \<Rightarrow> Some (Inl e, w\<lparr>ledger := c\<rparr>)
             | Inr receipt \<Rightarrow>
                let gas_used = gasUsed receipt;
                    gas_price = gas_price w3 c
                in
                (case py_truediv (gas_used * gas_price) (10 ^ 18) of
                   Inl e \<Rightarrow> Some (Inl e, w\<lparr>ledger := c\<rparr>)
                 | Inr gas_cost \<Rightarrow>
                do {
                  (lat, g1) \<leftarrow> truncated_normal (gauss rnd) (lat_mean s) (lat_std s)
                                 LATENCY_MIN LATENCY_MAX (rng w);
                  (comp, g2) \<leftarrow> truncated_normal (gauss rnd) (comp_mean s) (comp_std s)
                                 COMPLIANCE_MIN COMPLIANCE_MAX g1;
                  (offchain, g3) \<leftarrow> truncated_normal (gauss rnd) OFFCHAIN_MEAN OFFCHAIN_STD
                                 OFFCHAIN_MIN OFFCHAIN_MAX g2;
                  (total, g4) \<leftarrow> truncated_normal (gauss rnd)
                                 (total_cost_mean s) (total_cost_std s)
                                 (total_cost_mean s - 3 * total_cost_std s)
                                 (total_cost_mean s + 3 * total_cost_std s) g3;
                  (roi, g5) \<leftarrow> truncated_normal (gauss rnd) (roi_mean s) (roi_std s)
                                 ROI_MIN ROI_MAX g4;
                  let violation = (if comp < COMPLIANCE_VIOLATION_THRESHOLD then ''Y'' else ''N'');
                      decision_outcome = (if roi < 0 \<or> comp < 65 then ''Rejected'' else ''Accepted'')
                  in Some (Inr
                    [(''Simulation ID'', PyInt idx),
                     (''DAO Gen'', PyStr label),
                     (''Latency (s)'', PyFloat (py_round lat 2)),
                     (''Compliance (%)'', PyFloat (py_round comp 1)),
                     (''Gas Cost (ETH)'', PyFloat (py_round gas_cost 6)),
                     (''Off-Chain Cost'', PyInt (round_half_even offchain)),
                     (''Total Cost (AED)'', PyInt (round_half_even total)),
                     (''Decision Outcome'', PyStr decision_outcome),
                     (''ROI (%)'', PyFloat (py_round roi 2)),
                     (''Compliance Violation'', PyStr violation)],
                    w\<lparr>rng := g5, ledger := c\<rparr>)
                })))))"

text \<open>The loop of \<open>run_full\<close> (lines 222--225) over the indices still to run; the first
  exception ends it.\<close>

fun run_loop ::
  "'g py_random \<Rightarrow> node \<Rightarrow> address \<Rightarrow> string list \<Rightarrow> address \<Rightarrow> int list \<Rightarrow> row list
     \<Rightarrow> 'g world \<Rightarrow> ((py_error + row list) \<times> 'g world) option" where
  "run_loop rnd w3 contract seq sender [] rows w = Some (Inr rows, w)"
| "run_loop rnd w3 contract seq sender (i # is) rows w =
     (case py_index seq (i - 1) of
        Inl e \<Rightarrow> Some (Inl e, w)
      | Inr label \<Rightarrow>
         (case simulate_one rnd w3 contract i label sender w of
            None \<Rightarrow> None
          | Some (Inl e, w') \<Rightarrow> Some (Inl e, w')
          | Some (Inr r, w') \<Rightarrow> run_loop rnd w3 contract seq sender is (rows @ [r]) w'))"

text \<open>\<open>run_full\<close>, with the two configuration constants it reads as arguments. The result
  is the list \<open>rows\<close> handed to the spreadsheet writer; the directory and the file written
  (lines 218, 227, 228) are outside the model.\<close>

definition run_full_with ::
  "int \<Rightarrow> int \<Rightarrow> 'g py_random \<Rightarrow> node \<Rightarrow> py_error + unit \<Rightarrow> 'g world
     \<Rightarrow> ((py_error + row list) \<times> 'g world) option" where
  "run_full_with num_runs random_seed rnd w3_0 solc w0 =
     (let w = set_seed rnd random_seed w0 in
      case connect_ganache w3_0 w of
        Inl e \<Rightarrow> Some (Inl e, w)
      | Inr w3 \<Rightarrow>
         let accts = accounts w3 (ledger w) in
         if accts = [] then Some (Inl (RuntimeError ''No accounts available in Ganache.''), w)
         else
           let sender = hd accts in
           (case compile_contract solc of
              Inl e \<Rightarrow> Some (Inl e, w)
            | Inr abi_bytecode \<Rightarrow>
               (case deploy_contract w3 abi_bytecode sender w of
                  (Inl e, w1) \<Rightarrow> Some (Inl e, w1)
                | (Inr contract, w1) \<Rightarrow>
                    let seq = dao_sequence num_runs
                    in run_loop rnd w3 contract seq sender [1..num_runs] [] w1)))"

definition run_full ::
  "'g py_random \<Rightarrow> node \<Rightarrow> py_error + unit \<Rightarrow> 'g world
     \<Rightarrow> ((py_error + row list) \<times> 'g world) option" where
  "run_full = run_full_with NUM_RUNS RANDOM_SEED"

section \<open>Notions used to state the properties\<close>

subsection \<open>The rejection loop\<close>

text \<open>The acceptance test of \<open>truncated_normal\<close>, \<open>low <= x <= high\<close>.\<close>

definition accepted :: "real \<Rightarrow> real \<Rightarrow> real \<Rightarrow> bool" where
  "accepted low high x = (low \<le> x \<and> x \<le> high)"

text \<open>The state of the random stream after \<open>k\<close> calls of \<open>gauss(mu, sigma)\<close>.\<close>

fun draw_state ::
  "(real \<Rightarrow> real \<Rightarrow> 'g \<Rightarrow> real \<times> 'g) \<Rightarrow> real \<Rightarrow> real \<Rightarrow> nat \<Rightarrow> 'g \<Rightarrow> 'g" where
  "draw_state gss mu sigma 0 g = g"
| "draw_state gss mu sigma (Suc k) g = draw_state gss mu sigma k (snd (gss mu sigma g))"

subsection \<open>The parts of \<open>simulate_one\<close>\<close>

text \<open>
The five unrounded draws of one run (lines 179--188), in the order in which
  \<open>simulate_one\<close> makes them. This is \<open>simulate_one\<close> without the ledger; lemma
  \<open>simulate_one_Inr\<close> below shows that \<open>simulate_one\<close> computes exactly this.
\<close>

record metrics =
  m_lat :: real
  m_comp :: real
  m_offchain :: real
  m_total :: real
  m_roi :: real

definition synthesize :: "'g py_random \<Rightarrow> stats \<Rightarrow> 'g \<Rightarrow> (metrics \<times> 'g) option" where
  "synthesize rnd s g =
     do {
       (lat, g1) \<leftarrow> truncated_normal (gauss rnd) (lat_mean s) (lat_std s)
                      LATENCY_MIN LATENCY_MAX g;
       (comp, g2) \<leftarrow> truncated_normal (gauss rnd) (comp_mean s) (comp_std s)
                      COMPLIANCE_MIN COMPLIANCE_MAX g1;
       (offchain, g3) \<leftarrow> truncated_normal (gauss rnd) OFFCHAIN_MEAN OFFCHAIN_STD
                      OFFCHAIN_MIN OFFCHAIN_MAX g2;
       (total, g4) \<leftarrow> truncated_normal (gauss rnd) (total_cost_mean s) (total_cost_std s)
                      (total_cost_mean s - 3 * total_cost_std s)
                      (total_cost_mean s + 3 * total_cost_std s) g3;
       (roi, g5) \<leftarrow> truncated_normal (gauss rnd) (roi_mean s) (roi_std s) ROI_MIN ROI_MAX g4;
       Some (\<lparr>m_lat = lat, m_comp = comp, m_offchain = offchain, m_total = total, m_roi = roi\<rparr>, g5)
     }"

text \<open>
The dictionary built at lines 190--204 from the run index, the label, the gas cost and
  the five draws.
\<close>

definition run_record :: "int \<Rightarrow> string \<Rightarrow> real \<Rightarrow> metrics \<Rightarrow> row" where
  "run_record idx label gas_cost m =
     [(''Simulation ID'', PyInt idx),
      (''DAO Gen'', PyStr label),
      (''Latency (s)'', PyFloat (py_round (m_lat m) 2)),
      (''Compliance (%)'', PyFloat (py_round (m_comp m) 1)),
      (''Gas Cost (ETH)'', PyFloat (py_round gas_cost 6)),
      (''Off-Chain Cost'', PyInt (round_half_even (m_offchain m))),
      (''Total Cost (AED)'', PyInt (round_half_even (m_total m))),
      (''Decision Outcome'',
         PyStr (if m_roi m < 0 \<or> m_comp m < 65 then ''Rejected'' else ''Accepted'')),
      (''ROI (%)'', PyFloat (py_round (m_roi m) 2)),
      (''Compliance Violation'',
         PyStr (if m_comp m < COMPLIANCE_VIOLATION_THRESHOLD then ''Y'' else ''N''))]"

text \<open>The draws of a whole sequence of runs, one profile after the other, on one stream.\<close>

fun synthesize_all :: "'g py_random \<Rightarrow> string list \<Rightarrow> 'g \<Rightarrow> (metrics list \<times> 'g) option" where
  "synthesize_all rnd [] g = Some ([], g)"
| "synthesize_all rnd (label # labels) g =
     (case DAO_STATS label of
        None \<Rightarrow> None
      | Some s \<Rightarrow>
         (case synthesize rnd s g of
            None \<Rightarrow> None
          | Some (m, g1) \<Rightarrow>
             (case synthesize_all rnd labels g1 of
                None \<Rightarrow> None
              | Some (ms, g') \<Rightarrow> Some (m # ms, g'))))"

text \<open>The five synthesized metric columns of a row, and the cells they hold for given draws.\<close>

definition metric_fields :: "row \<Rightarrow> cell option list" where
  "metric_fields r =
     map (map_of r)
       [''Latency (s)'', ''Compliance (%)'', ''Off-Chain Cost'', ''Total Cost (AED)'', ''ROI (%)'']"

definition metric_cells :: "metrics \<Rightarrow> cell option list" where
  "metric_cells m =
     [Some (PyFloat (py_round (m_lat m) 2)),
      Some (PyFloat (py_round (m_comp m) 1)),
      Some (PyInt (round_half_even (m_offchain m))),
      Some (PyInt (round_half_even (m_total m))),
      Some (PyFloat (py_round (m_roi m) 2))]"

subsection \<open>Bounds and columns\<close>

text \<open>
A numeric cell lies in \<open>[lo, hi]\<close>; a row respects the bounds of the specification,
  the bounds of the total cost being those of the profile named in the row.
\<close>

definition cell_in :: "real \<Rightarrow> real \<Rightarrow> cell option \<Rightarrow> bool" where
  "cell_in lo hi c =
     (case c of
        Some (PyFloat v) \<Rightarrow> lo \<le> v \<and> v \<le> hi
      | Some (PyInt k) \<Rightarrow> lo \<le> of_int k \<and> of_int k \<le> hi
      | _ \<Rightarrow> False)"

definition row_bounded :: "row \<Rightarrow> bool" where
  "row_bounded r =
     (case map_of r ''DAO Gen'' of
        Some (PyStr label) \<Rightarrow>
          (case DAO_STATS label of
             Some s \<Rightarrow>
               cell_in 1.5 19.0 (map_of r ''Latency (s)'')
               \<and> cell_in 60 100 (map_of r ''Compliance (%)'')
               \<and> cell_in (-0.5) 9.0 (map_of r ''ROI (%)'')
               \<and> cell_in 170 420 (map_of r ''Off-Chain Cost'')
               \<and> cell_in (total_cost_mean s - 3 * total_cost_std s)
                          (total_cost_mean s + 3 * total_cost_std s)
                          (map_of r ''Total Cost (AED)'')
           | None \<Rightarrow> False)
      | _ \<Rightarrow> False)"

text \<open>The column names of a row as the source writes them, and as the specification lists them.\<close>

definition COLUMNS :: "string list" where
  "COLUMNS =
     [''Simulation ID'', ''DAO Gen'', ''Latency (s)'', ''Compliance (%)'', ''Gas Cost (ETH)'',
      ''Off-Chain Cost'', ''Total Cost (AED)'', ''Decision Outcome'', ''ROI (%)'',
      ''Compliance Violation'']"

definition SPEC_COLUMNS :: "string list" where
  "SPEC_COLUMNS =
     [''Simulation ID'', ''DAO Gen'', ''Latency (s)'', ''Compliance (%)'',
      ''Gas Cost (native unit)'', ''Off-Chain Cost'', ''Total Cost'', ''Decision Outcome'',
      ''ROI (%)'', ''Compliance Violation'']"

section \<open>Fixtures for concrete runs\<close>

text \<open>
A generator whose state counts the draws made and whose \<open>k\<close>-th standard draw is
  \<open>z k\<close>; seeding with \<open>s\<close> sets the counter to \<open>s\<close>.
\<close>

definition stub_random :: "(nat \<Rightarrow> real) \<Rightarrow> nat py_random" where
  "stub_random z = \<lparr>seed = (\<lambda>s. nat s), gauss = (\<lambda>mu sigma g. (mu + sigma * z g, Suc g))\<rparr>"

text \<open>Every standard draw is \<open>c\<close>.\<close>

definition z_const :: "real \<Rightarrow> nat \<Rightarrow> real" where
  "z_const c g = c"

text \<open>Standard draws \<open>-2, 4, 0, 1\<close> repeating: the second of each four is far out.\<close>

definition z_cycle :: "nat \<Rightarrow> real" where
  "z_cycle g = (if g mod 4 = 1 then 4 else of_int (int (g mod 4)) - 2)"

text \<open>
A reachable node with one account, a constant gas price, and gas, timestamps and
  addresses that grow with the number of mined transactions.
\<close>

definition stub_node :: "int \<Rightarrow> node" where
  "stub_node price =
     \<lparr>is_connected = (\<lambda>c. True),
      accounts = (\<lambda>c. [7]),
      gas_price = (\<lambda>c. price),
      gas_of = (\<lambda>t c. 50000 + int (length (txs c))),
      block_timestamp = (\<lambda>c. 1700000000 + int (length (txs c))),
      fresh_address = (\<lambda>c. 100 + length (txs c)),
      refuses = (\<lambda>t c. False),
      times_out = (\<lambda>h c. False)\<rparr>"

text \<open>The same node with two accounts and a lower gas price, unreachable, and without accounts.\<close>

definition cheap_node :: node where
  "cheap_node = (stub_node 1000000000)\<lparr>accounts := (\<lambda>c. [9, 7])\<rparr>"

definition unreachable_node :: node where
  "unreachable_node = (stub_node 1)\<lparr>is_connected := (\<lambda>c. False)\<rparr>"

definition no_account_node :: node where
  "no_account_node = (stub_node 1)\<lparr>accounts := (\<lambda>c. [])\<rparr>"

text \<open>An empty chain, and a chain on which the contract already sits at address 100.\<close>

definition stub_world :: "nat world" where
  "stub_world = \<lparr>rng = 0, ledger = \<lparr>code = Map.empty, txs = []\<rparr>\<rparr>"

definition stub_world_deployed :: "nat world" where
  "stub_world_deployed =
     \<lparr>rng = 0, ledger = \<lparr>code = [100 \<mapsto> DAOGovernance_init], txs = []\<rparr>\<rparr>"

text \<open>
The rows of two runs from seed 42 on \<open>z_cycle\<close>, at gas price \<open>20 * 10^9\<close> and at
  gas price \<open>10^9\<close>.
\<close>

definition rows2 :: "row list" where
  "rows2 = [[(''Simulation ID'', PyInt 1), (''DAO Gen'', PyStr ''DAO 1.0''),
         (''Latency (s)'', PyFloat (79 / 5)),
         (''Compliance (%)'', PyFloat 74),
         (''Gas Cost (ETH)'', PyFloat (1 / 1000)),
         (''Off-Chain Cost'', PyInt 220),
         (''Total Cost (AED)'', PyInt 119000),
         (''Decision Outcome'', PyStr ''Accepted''),
         (''ROI (%)'', PyFloat (38 / 25)),
         (''Compliance Violation'', PyStr ''Y'')],
        [(''Simulation ID'', PyInt 2), (''DAO Gen'', PyStr ''DAO 2.0''),
         (''Latency (s)'', PyFloat (37 / 5)),
         (''Compliance (%)'', PyFloat 95),
         (''Gas Cost (ETH)'', PyFloat (1 / 1000)),
         (''Off-Chain Cost'', PyInt 300),
         (''Total Cost (AED)'', PyInt 94500),
         (''Decision Outcome'', PyStr ''Accepted''),
         (''ROI (%)'', PyFloat 3), (''Compliance Violation'', PyStr ''N'')]]"

definition rows2_cheap :: "row list" where
  "rows2_cheap =
     [[(''Simulation ID'', PyInt 1), (''DAO Gen'', PyStr ''DAO 1.0''),
       (''Latency (s)'', PyFloat (79 / 5)),
       (''Compliance (%)'', PyFloat 74),
       (''Gas Cost (ETH)'', PyFloat (1 / 20000)),
       (''Off-Chain Cost'', PyInt 220),
       (''Total Cost (AED)'', PyInt 119000),
       (''Decision Outcome'', PyStr ''Accepted''),
       (''ROI (%)'', PyFloat (38 / 25)),
       (''Compliance Violation'', PyStr ''Y'')],
      [(''Simulation ID'', PyInt 2), (''DAO Gen'', PyStr ''DAO 2.0''),
       (''Latency (s)'', PyFloat (37 / 5)),
       (''Compliance (%)'', PyFloat 95),
       (''Gas Cost (ETH)'', PyFloat (1 / 20000)),
       (''Off-Chain Cost'', PyInt 300),
       (''Total Cost (AED)'', PyInt 94500),
       (''Decision Outcome'', PyStr ''Accepted''),
       (''ROI (%)'', PyFloat 3),
       (''Compliance Violation'', PyStr ''N'')]]"

text \<open>
The row of a DAO 2.0 run whose compliance draw is exactly 80, and of one whose compliance
  draw is 79.964.
\<close>

definition row_at_80 :: row where
  "row_at_80 =
     [(''Simulation ID'', PyInt 2), (''DAO Gen'', PyStr ''DAO 2.0''),
      (''Latency (s)'', PyFloat (42 / 5)),
      (''Compliance (%)'', PyFloat 80),
      (''Gas Cost (ETH)'', PyFloat (1 / 1000)),
      (''Off-Chain Cost'', PyInt 260),
      (''Total Cost (AED)'', PyInt 85500),
      (''Decision Outcome'', PyStr ''Accepted''),
      (''ROI (%)'', PyFloat (7 / 2)),
      (''Compliance Violation'', PyStr ''N'')]"

definition row_below_80 :: row where
  "row_below_80 =
     [(''Simulation ID'', PyInt 2), (''DAO Gen'', PyStr ''DAO 2.0''),
      (''Latency (s)'', PyFloat (839 / 100)),
      (''Compliance (%)'', PyFloat 80),
      (''Gas Cost (ETH)'', PyFloat (3 / 500000)),
      (''Off-Chain Cost'', PyInt 260),
      (''Total Cost (AED)'', PyInt 85446),
      (''Decision Outcome'', PyStr ''Accepted''),
      (''ROI (%)'', PyFloat (349 / 100)),
      (''Compliance Violation'', PyStr ''Y'')]"

text \<open>
A node that meters 50025 gas at gas price \<open>20 * 10^9\<close>, where the exact quotient
  0.0010005 is a tie of the rounding to 6 decimals and the double quotient is not; and the
  row of a DAO 2.0 run on it.
\<close>

definition tie_node :: node where
  "tie_node = (stub_node 20000000000)\<lparr>gas_of := (\<lambda>t c. 50025)\<rparr>"

definition row_gas_tie :: row where
  "row_gas_tie =
     [(''Simulation ID'', PyInt 2), (''DAO Gen'', PyStr ''DAO 2.0''),
      (''Latency (s)'', PyFloat (42 / 5)),
      (''Compliance (%)'', PyFloat 80),
      (''Gas Cost (ETH)'', PyFloat (1001 / 1000000)),
      (''Off-Chain Cost'', PyInt 260),
      (''Total Cost (AED)'', PyInt 85500),
      (''Decision Outcome'', PyStr ''Accepted''),
      (''ROI (%)'', PyFloat (7 / 2)),
      (''Compliance Violation'', PyStr ''N'')]"

section \<open>Properties\<close>

subsection \<open>The rejection loop\<close>

lemma truncated_normal_step:
  "truncated_normal gss mu sigma low high g =
     (if accepted low high (fst (gss mu sigma g)) then Some (gss mu sigma g)
      else truncated_normal gss mu sigma low high (snd (gss mu sigma g)))"
  by (subst truncated_normal.simps) (cases "gss mu sigma g", simp add: accepted_def)

lemma truncated_normal_bounds:
  assumes "truncated_normal gss mu sigma low high g = Some y"
  shows "low \<le> fst y \<and> fst y \<le> high"
  using assms
  by (rule truncated_normal.raw_induct
        [where P = "\<lambda>gss mu sigma low high g y. low \<le> fst y \<and> fst y \<le> high", rotated 1])
     (auto split: prod.splits if_splits)

lemma truncated_normal_skip:
  assumes "\<forall>j<k. \<not> accepted low high (fst (gss mu sigma (draw_state gss mu sigma j g)))"
  shows "truncated_normal gss mu sigma low high g
       = truncated_normal gss mu sigma low high (draw_state gss mu sigma k g)"
  using assms
proof (induction k arbitrary: g)
  case 0
  then show ?case by simp
next
  case (Suc k)
  from Suc.prems have rej: "\<not> accepted low high (fst (gss mu sigma g))"
    by (metis draw_state.simps(1) zero_less_Suc)
  have "\<forall>j<k. \<not> accepted low high
          (fst (gss mu sigma (draw_state gss mu sigma j (snd (gss mu sigma g)))))"
    using Suc.prems by (metis Suc_less_eq draw_state.simps(2))
  from Suc.IH[OF this] rej show ?case
    by (subst truncated_normal_step) simp
qed

lemma truncated_normal_returns_accepted:
  assumes "truncated_normal gss mu sigma low high g = Some y"
  shows "\<exists>k. accepted low high (fst (gss mu sigma (draw_state gss mu sigma k g)))"
  using assms
proof (induction rule: truncated_normal.raw_induct[rotated 1, consumes 1])
  case (1 tn gss mu sigma low high g y)
  show ?case
  proof (cases "accepted low high (fst (gss mu sigma g))")
    case True
    then show ?thesis by (metis draw_state.simps(1))
  next
    case False
    with 1(2) have "tn gss mu sigma low high (snd (gss mu sigma g)) = Some y"
      by (auto simp: accepted_def split: prod.splits if_splits)
    from 1(1)[OF this] obtain k where
      "accepted low high (fst (gss mu sigma (draw_state gss mu sigma k (snd (gss mu sigma g)))))"
      by blast
    then show ?thesis by (metis draw_state.simps(2))
  qed
qed

text \<open>
  C6. The rejection loop of \<open>truncated_normal\<close> has no iteration cap. It returns the first
  draw that lands in \<open>[low, high]\<close>, however many rejected draws come before it; when no draw
  of the stream ever lands there it never returns, and that is so for every stream when
  \<open>low > high\<close>. Termination is therefore not guaranteed for all inputs.
\<close>

theorem truncated_normal_unbounded_retry:
  "(high < low \<longrightarrow> truncated_normal gss mu sigma low high g = None)
   \<and> ((\<forall>k. \<not> accepted low high (fst (gss mu sigma (draw_state gss mu sigma k g))))
        \<longrightarrow> truncated_normal gss mu sigma low high g = None)
   \<and> ((\<forall>j<k. \<not> accepted low high (fst (gss mu sigma (draw_state gss mu sigma j g))))
        \<and> accepted low high (fst (gss mu sigma (draw_state gss mu sigma k g)))
        \<longrightarrow> truncated_normal gss mu sigma low high g
              = Some (gss mu sigma (draw_state gss mu sigma k g)))"
proof (intro conjI impI)
  show never: "truncated_normal gss mu sigma low high g = None"
    if "\<forall>k. \<not> accepted low high (fst (gss mu sigma (draw_state gss mu sigma k g)))"
  proof (cases "truncated_normal gss mu sigma low high g")
    case None
    then show ?thesis .
  next
    case (Some y)
    from truncated_normal_returns_accepted[OF Some] that show ?thesis by blast
  qed
  show "truncated_normal gss mu sigma low high g = None" if "high < low"
  proof (cases "truncated_normal gss mu sigma low high g")
    case None
    then show ?thesis .
  next
    case (Some y)
    from truncated_normal_bounds[OF Some] that show ?thesis by simp
  qed
  show "truncated_normal gss mu sigma low high g
          = Some (gss mu sigma (draw_state gss mu sigma k g))"
    if h: "(\<forall>j<k. \<not> accepted low high (fst (gss mu sigma (draw_state gss mu sigma j g))))
           \<and> accepted low high (fst (gss mu sigma (draw_state gss mu sigma k g)))"
  proof -
    from h have "truncated_normal gss mu sigma low high g
        = truncated_normal gss mu sigma low high (draw_state gss mu sigma k g)"
      by (intro truncated_normal_skip) simp
    also from h have "\<dots> = Some (gss mu sigma (draw_state gss mu sigma k g))"
      by (subst truncated_normal_step) simp
    finally show ?thesis .
  qed
qed

theorem truncated_normal_unbounded_retry_witness:
  "(1.5::real) < 19
   \<and> truncated_normal (gauss (stub_random z_cycle)) 15.8 1.0 19 1.5 0 = None
   \<and> (\<forall>k. \<not> accepted 1 2
          (fst (gauss (stub_random (z_const 0)) 0 1 (draw_state (gauss (stub_random (z_const 0))) 0 1 k 0))))
   \<and> truncated_normal (gauss (stub_random (z_const 0))) 0 1 1 2 0 = None
   \<and> \<not> accepted 1.5 19
          (fst (gauss (stub_random z_cycle) 15.8 1.0
                 (draw_state (gauss (stub_random z_cycle)) 15.8 1.0 0 1)))
   \<and> accepted 1.5 19
          (fst (gauss (stub_random z_cycle) 15.8 1.0
                 (draw_state (gauss (stub_random z_cycle)) 15.8 1.0 1 1)))
   \<and> truncated_normal (gauss (stub_random z_cycle)) 15.8 1.0 1.5 19 1 = Some (15.8, 3)"
  using truncated_normal_unbounded_retry
          [of "1.5" 19 "gauss (stub_random z_cycle)" "15.8" "1.0" 0 0]
        truncated_normal_unbounded_retry
          [of 2 1 "gauss (stub_random (z_const 0))" 0 1 0 0]
        truncated_normal_unbounded_retry
          [of 19 "1.5" "gauss (stub_random z_cycle)" "15.8" "1.0" 1 1]
  by (simp add: stub_random_def z_cycle_def z_const_def accepted_def)

subsection \<open>Rounding\<close>

lemma round_half_even_ge_floor: "\<lfloor>y\<rfloor> \<le> round_half_even y"
  by (simp add: round_half_even_def Let_def)

lemma round_half_even_le_ceiling: "round_half_even y \<le> \<lceil>y\<rceil>"
proof -
  have "\<lceil>y\<rceil> = \<lfloor>y\<rfloor> + 1" if "y - of_int \<lfloor>y\<rfloor> \<noteq> 0"
    using that by (metis ceiling_altdef eq_iff_diff_eq_0)
  then show ?thesis
    by (auto simp: round_half_even_def Let_def)
qed

lemma round_half_even_lower: "of_int L \<le> y \<Longrightarrow> L \<le> round_half_even y"
proof -
  assume "of_int L \<le> y"
  then have "L \<le> \<lfloor>y\<rfloor>" by (simp add: le_floor_iff)
  with round_half_even_ge_floor[of y] show ?thesis by linarith
qed

lemma round_half_even_upper: "y \<le> of_int H \<Longrightarrow> round_half_even y \<le> H"
proof -
  assume "y \<le> of_int H"
  then have "\<lceil>y\<rceil> \<le> H" by (simp add: ceiling_le_iff)
  with round_half_even_le_ceiling[of y] show ?thesis by linarith
qed

lemma round_half_even_near: "\<bar>of_int (round_half_even y) - y\<bar> \<le> 1/2"
proof -
  have "of_int \<lfloor>y\<rfloor> \<le> y" "y < of_int \<lfloor>y\<rfloor> + 1" by linarith+
  then show ?thesis
    by (auto simp: round_half_even_def Let_def abs_le_iff)
qed

lemma py_round_lower:
  assumes "low \<le> x" "low * 10 ^ nd = of_int L"
  shows "low \<le> py_round x nd"
proof -
  have "of_int L \<le> x * 10 ^ nd"
    using assms by (metis mult_right_mono zero_le_numeral zero_le_power)
  then have "L \<le> round_half_even (x * 10 ^ nd)" by (rule round_half_even_lower)
  then have "(of_int L :: real) \<le> of_int (round_half_even (x * 10 ^ nd))" by simp
  then have "low * 10 ^ nd \<le> of_int (round_half_even (x * 10 ^ nd))"
    using assms(2) by simp
  then show ?thesis
    by (simp add: py_round_def pos_le_divide_eq)
qed

lemma py_round_upper:
  assumes "x \<le> high" "high * 10 ^ nd = of_int H"
  shows "py_round x nd \<le> high"
proof -
  have "x * 10 ^ nd \<le> of_int H"
    using assms by (metis mult_right_mono zero_le_numeral zero_le_power)
  then have "round_half_even (x * 10 ^ nd) \<le> H" by (rule round_half_even_upper)
  then have "(of_int (round_half_even (x * 10 ^ nd)) :: real) \<le> of_int H" by simp
  then have "of_int (round_half_even (x * 10 ^ nd)) \<le> high * 10 ^ nd"
    using assms(2) by simp
  then show ?thesis
    by (simp add: py_round_def pos_divide_le_eq)
qed

lemma py_round_near: "\<bar>py_round x nd - x\<bar> * 10 ^ nd \<le> 1/2"
proof -
  have "\<bar>py_round x nd - x\<bar> * 10 ^ nd = \<bar>(py_round x nd - x) * 10 ^ nd\<bar>"
    by (simp add: abs_mult)
  also have "(py_round x nd - x) * 10 ^ nd = of_int (round_half_even (x * 10 ^ nd)) - x * 10 ^ nd"
    by (simp add: py_round_def algebra_simps)
  finally show ?thesis using round_half_even_near[of "x * 10 ^ nd"] by simp
qed

lemma py_round_grid: "py_round x nd * 10 ^ nd = of_int (round_half_even (x * 10 ^ nd))"
  by (simp add: py_round_def)

lemma py_round_compliance_edge:
  assumes "79.95 \<le> x" "x < 80"
  shows "py_round x 1 = 80"
proof -
  have lo: "799.5 \<le> x * 10" and hi: "x * 10 < 800" using assms by simp_all
  then have fl: "\<lfloor>x * 10\<rfloor> = 799" by linarith
  have "round_half_even (x * 10) = 800"
    using lo hi unfolding round_half_even_def fl Let_def by simp
  then show ?thesis by (simp add: py_round_def)
qed

subsection \<open>Rounding to a double\<close>

lemma bit_length_bounds:
  "0 < n \<Longrightarrow> 2 ^ (bit_length n - 1) \<le> n \<and> n < 2 ^ bit_length n"
proof (induction n rule: bit_length.induct)
  case (1 n)
  show ?case
  proof (cases "n div 2 \<le> 0")
    case True
    with "1.prems" have "n = 1" by presburger
    then show ?thesis by (simp add: bit_length.simps)
  next
    case False
    with "1.IH" "1.prems" have IH: "2 ^ (bit_length (n div 2) - 1) \<le> n div 2"
      "n div 2 < 2 ^ bit_length (n div 2)" by simp_all
    have pos: "0 < bit_length (n div 2)" using False by (simp add: bit_length.simps)
    have bl: "bit_length n = Suc (bit_length (n div 2))"
      using "1.prems" by (subst bit_length.simps) simp
    have "(2::int) ^ (bit_length n - 1) = 2 * 2 ^ (bit_length (n div 2) - 1)"
      using pos bl by (cases "bit_length (n div 2)") simp_all
    also have "\<dots> \<le> 2 * (n div 2)" using IH(1) by simp
    also have "\<dots> \<le> n" by presburger
    finally have lo: "2 ^ (bit_length n - 1) \<le> n" .
    have "n + 1 \<le> 2 * (n div 2 + 1)" by presburger
    also have "\<dots> \<le> 2 * 2 ^ bit_length (n div 2)" using IH(2) by simp
    finally have "n < 2 ^ bit_length n" using bl by simp
    with lo show ?thesis by simp
  qed
qed

lemma bit_length_pos: "0 < n \<Longrightarrow> 0 < bit_length n"
  by (subst bit_length.simps) simp

lemma pow2_powi: "pow2 k = 2 powi k"
  by (simp add: pow2_def power_int_def field_simps)

lemma pow2_pos: "0 < pow2 k"
  by (simp add: pow2_def)

lemma pow2_add: "pow2 (a + b) = pow2 a * pow2 b"
  by (simp add: pow2_powi power_int_add)

lemma binary_exponent_bounds:
  assumes "0 < x"
  shows "pow2 (binary_exponent x) \<le> x \<and> x < pow2 (binary_exponent x + 1)"
proof (cases "1 \<le> x")
  case True
  define n where "n = \<lfloor>x\<rfloor>"
  have n: "0 < n" "of_int n \<le> x" "x < of_int n + 1"
    using True unfolding n_def by (simp_all add: floor_less_iff)
  from bit_length_bounds[OF n(1)] have b: "2 ^ (bit_length n - 1) \<le> n" "n < 2 ^ bit_length n"
    by simp_all
  have e: "binary_exponent x = int (bit_length n) - 1"
    using True by (simp add: binary_exponent_def n_def)
  have L: "0 < bit_length n" using n(1) by (rule bit_length_pos)
  have "pow2 (binary_exponent x) = 2 ^ (bit_length n - 1)"
    using L unfolding e pow2_def by (simp add: nat_diff_distrib')
  also have "\<dots> \<le> of_int n" using b(1) by (metis of_int_le_iff of_int_numeral of_int_power)
  finally have lo: "pow2 (binary_exponent x) \<le> x" using n(2) by simp
  have "n + 1 \<le> 2 ^ bit_length n" using b(2) by simp
  then have "real_of_int (n + 1) \<le> 2 ^ bit_length n"
    by (metis of_int_le_iff of_int_numeral of_int_power)
  moreover have "pow2 (binary_exponent x + 1) = 2 ^ bit_length n"
    unfolding e pow2_def by simp
  ultimately have "x < pow2 (binary_exponent x + 1)" using n(3) by simp
  with lo show ?thesis by simp
next
  case False
  define y where "y = 1 / x"
  have y: "1 < y" using assms False by (simp add: y_def)
  define n where "n = \<lceil>y\<rceil> - 1"
  have c: "real_of_int \<lceil>y\<rceil> - 1 < y" "y \<le> real_of_int \<lceil>y\<rceil>" by linarith+
  have c2: "2 \<le> \<lceil>y\<rceil>" using y by linarith
  then have n: "0 < n" "real_of_int n = real_of_int \<lceil>y\<rceil> - 1" unfolding n_def by simp_all
  from bit_length_bounds[OF n(1)] have b: "2 ^ (bit_length n - 1) \<le> n" "n < 2 ^ bit_length n"
    by simp_all
  have e: "binary_exponent x = - int (bit_length n)"
    using False by (simp add: binary_exponent_def n_def y_def)
  have L: "0 < bit_length n" using n(1) by (rule bit_length_pos)
  have "n + 1 \<le> 2 ^ bit_length n" using b(2) by simp
  then have up: "real_of_int (n + 1) \<le> 2 ^ bit_length n"
    by (metis of_int_le_iff of_int_numeral of_int_power)
  then have "real_of_int \<lceil>y\<rceil> \<le> 2 ^ bit_length n" using n(2) by simp
  then have "y \<le> 2 ^ bit_length n" using c(2) by linarith
  then have "1 / 2 ^ bit_length n \<le> x"
    using assms unfolding y_def by (simp add: field_simps)
  moreover have "pow2 (binary_exponent x) = 1 / 2 ^ bit_length n"
    unfolding e pow2_def using L by simp
  ultimately have lo: "pow2 (binary_exponent x) \<le> x" by simp
  have "(2::real) ^ (bit_length n - 1) \<le> of_int n"
    using b(1) by (metis of_int_le_iff of_int_numeral of_int_power)
  then have "2 ^ (bit_length n - 1) < y" using c(1) n(2) by linarith
  then have "x < 1 / 2 ^ (bit_length n - 1)"
    using assms unfolding y_def by (simp add: field_simps)
  moreover have "pow2 (binary_exponent x + 1) = 1 / 2 ^ (bit_length n - 1)"
    unfolding e pow2_def using L by (auto simp: nat_diff_distrib' algebra_simps)
  ultimately show ?thesis using lo by simp
qed

lemma round_to_double_error:
  "\<bar>round_to_double x - x\<bar> \<le> \<bar>x\<bar> / 2 ^ 53"
proof (cases "x = 0")
  case True
  then show ?thesis by (simp add: round_to_double_def)
next
  case False
  define e where "e = binary_exponent \<bar>x\<bar>"
  define y where "y = x * pow2 (52 - e)"
  have lo: "pow2 e \<le> \<bar>x\<bar>" using binary_exponent_bounds[of "\<bar>x\<bar>"] False by (simp add: e_def)
  have r: "round_to_double x = of_int (round_half_even y) * pow2 (e - 52)"
    using False by (simp add: round_to_double_def e_def y_def Let_def)
  have one: "pow2 (52 - e) * pow2 (e - 52) = 1"
    using pow2_add[of "52 - e" "e - 52"] by (simp add: pow2_def)
  have "x = y * pow2 (e - 52)" using one by (simp add: y_def mult.assoc)
  then have "round_to_double x - x = (of_int (round_half_even y) - y) * pow2 (e - 52)"
    using r by (simp add: algebra_simps)
  then have "\<bar>round_to_double x - x\<bar> = \<bar>of_int (round_half_even y) - y\<bar> * pow2 (e - 52)"
    using pow2_pos[of "e - 52"] by (simp add: abs_mult)
  also have "\<dots> \<le> 1 / 2 * pow2 (e - 52)"
    using round_half_even_near[of y] pow2_pos[of "e - 52"] by (simp add: mult_right_mono)
  also have "1 / 2 * pow2 (e - 52) = pow2 e / 2 ^ 53"
    using pow2_add[of e "-52"] by (simp add: pow2_def)
  also have "\<dots> \<le> \<bar>x\<bar> / 2 ^ 53" using lo by (simp add: divide_right_mono)
  finally show ?thesis .
qed

subsection \<open>One run\<close>

lemma run_record_fields:
  "map_of (run_record idx label gas_cost m) ''Simulation ID'' = Some (PyInt idx)"
  "map_of (run_record idx label gas_cost m) ''DAO Gen'' = Some (PyStr label)"
  "map_of (run_record idx label gas_cost m) ''Latency (s)'' = Some (PyFloat (py_round (m_lat m) 2))"
  "map_of (run_record idx label gas_cost m) ''Compliance (%)''
     = Some (PyFloat (py_round (m_comp m) 1))"
  "map_of (run_record idx label gas_cost m) ''Gas Cost (ETH)''
     = Some (PyFloat (py_round gas_cost 6))"
  "map_of (run_record idx label gas_cost m) ''Off-Chain Cost''
     = Some (PyInt (round_half_even (m_offchain m)))"
  "map_of (run_record idx label gas_cost m) ''Total Cost (AED)''
     = Some (PyInt (round_half_even (m_total m)))"
  "map_of (run_record idx label gas_cost m) ''Decision Outcome''
     = Some (PyStr (if m_roi m < 0 \<or> m_comp m < 65 then ''Rejected'' else ''Accepted''))"
  "map_of (run_record idx label gas_cost m) ''ROI (%)'' = Some (PyFloat (py_round (m_roi m) 2))"
  "map_of (run_record idx label gas_cost m) ''Compliance Violation''
     = Some (PyStr (if m_comp m < COMPLIANCE_VIOLATION_THRESHOLD then ''Y'' else ''N''))"
  by (simp_all add: run_record_def)

lemma transact_ExecuteDecision:
  assumes "transact w3 (ExecuteDecision ct pid ver sender) c = Inr (h, c')"
  shows "h = length (txs c) \<and>
         (\<exists>st st' ev ret.
            code c ct = Some st \<and>
            executeDecision pid ver sender (block_timestamp w3 c) st = Some (st', ev, ret) \<and>
            c' = c\<lparr>code := (code c)(ct \<mapsto> st'),
                   txs := txs c @ [(ExecuteDecision ct pid ver sender,
                      \<lparr>gasUsed = gas_of w3 (ExecuteDecision ct pid ver sender) c,
                       contractAddress = None, logs = [ev]\<rparr>)]\<rparr>)"
  using assms
  by (auto simp: transact_def Let_def split: if_splits option.splits prod.splits)

lemma simulate_one_Inr:
  assumes "simulate_one rnd w3 ct idx label sender w = Some (Inr r, w')"
  shows "\<exists>s c rc m g5 gc.
    DAO_STATS label = Some s \<and>
    0 \<le> idx \<and> idx \<le> UINT256_MAX \<and> 0 \<le> id_s s \<and> id_s s \<le> UINT8_MAX \<and>
    transact w3 (ExecuteDecision ct idx (id_s s) sender) (ledger w)
       = Inr (length (txs (ledger w)), c) \<and>
    wait_for_transaction_receipt w3 (length (txs (ledger w))) c = Inr rc \<and>
    py_truediv (gasUsed rc * gas_price w3 c) (10 ^ 18) = Inr gc \<and>
    synthesize rnd s (rng w) = Some (m, g5) \<and>
    r = run_record idx label gc m \<and>
    w' = w\<lparr>rng := g5, ledger := c\<rparr>"
proof -
  from assms obtain s where s: "DAO_STATS label = Some s"
    by (auto simp: simulate_one_def split: option.splits)
  from assms s have enc: "0 \<le> idx \<and> idx \<le> UINT256_MAX \<and> 0 \<le> id_s s \<and> id_s s \<le> UINT8_MAX"
    by (auto simp: simulate_one_def functions_executeDecision_def Let_def split: if_splits)
  from assms s enc obtain h c where
    t: "transact w3 (ExecuteDecision ct idx (id_s s) sender) (ledger w) = Inr (h, c)"
    by (auto simp: simulate_one_def functions_executeDecision_def Let_def split: sum.splits)
  from transact_ExecuteDecision[OF t] have h: "h = length (txs (ledger w))" by simp
  from assms s enc t obtain rc where
    rc: "wait_for_transaction_receipt w3 h c = Inr rc"
    by (auto simp: simulate_one_def functions_executeDecision_def Let_def split: sum.splits)
  from assms s enc t rc obtain gc where
    gc: "py_truediv (gasUsed rc * gas_price w3 c) (10 ^ 18) = Inr gc"
    by (auto simp: simulate_one_def functions_executeDecision_def Let_def split: sum.splits)
  from assms s enc t rc gc obtain lat g1 comp g2 offchain g3 total g4 roi g5 where
    d: "truncated_normal (gauss rnd) (lat_mean s) (lat_std s) LATENCY_MIN LATENCY_MAX (rng w)
          = Some (lat, g1)"
       "truncated_normal (gauss rnd) (comp_mean s) (comp_std s) COMPLIANCE_MIN COMPLIANCE_MAX g1
          = Some (comp, g2)"
       "truncated_normal (gauss rnd) OFFCHAIN_MEAN OFFCHAIN_STD OFFCHAIN_MIN OFFCHAIN_MAX g2
          = Some (offchain, g3)"
       "truncated_normal (gauss rnd) (total_cost_mean s) (total_cost_std s)
          (total_cost_mean s - 3 * total_cost_std s)
          (total_cost_mean s + 3 * total_cost_std s) g3 = Some (total, g4)"
       "truncated_normal (gauss rnd) (roi_mean s) (roi_std s) ROI_MIN ROI_MAX g4 = Some (roi, g5)"
    by (auto simp: simulate_one_def functions_executeDecision_def Let_def
             split: Option.bind_splits prod.splits)
  let ?m = "\<lparr>m_lat = lat, m_comp = comp, m_offchain = offchain, m_total = total, m_roi = roi\<rparr>"
  have syn: "synthesize rnd s (rng w) = Some (?m, g5)"
    using d by (simp add: synthesize_def)
  from assms s enc t rc gc d have
    "r = run_record idx label gc ?m"
    and "w' = w\<lparr>rng := g5, ledger := c\<rparr>"
    by (simp_all add: simulate_one_def functions_executeDecision_def Let_def run_record_def)
  with s enc t h rc gc syn show ?thesis by blast
qed

lemma simulate_one_ledger:
  assumes "simulate_one rnd w3 ct idx label sender w = Some (Inr r, w')"
  shows "\<exists>s st st' ev ret m g5 gc. \<exists>rc :: receipt.
    DAO_STATS label = Some s \<and>
    code (ledger w) ct = Some st \<and>
    executeDecision idx (id_s s) sender (block_timestamp w3 (ledger w)) st = Some (st', ev, ret) \<and>
    rc = \<lparr>gasUsed = gas_of w3 (ExecuteDecision ct idx (id_s s) sender) (ledger w),
          contractAddress = None, logs = [ev]\<rparr> \<and>
    ledger w' = (ledger w)\<lparr>code := (code (ledger w))(ct \<mapsto> st'),
                   txs := txs (ledger w) @ [(ExecuteDecision ct idx (id_s s) sender, rc)]\<rparr> \<and>
    py_truediv (gasUsed rc * gas_price w3 (ledger w')) (10 ^ 18) = Inr gc \<and>
    synthesize rnd s (rng w) = Some (m, g5) \<and>
    r = run_record idx label gc m"
proof -
  from simulate_one_Inr[OF assms] obtain s c and rc :: receipt and m g5 gc where
    s: "DAO_STATS label = Some s" and
    t: "transact w3 (ExecuteDecision ct idx (id_s s) sender) (ledger w)
          = Inr (length (txs (ledger w)), c)" and
    wt: "wait_for_transaction_receipt w3 (length (txs (ledger w))) c = Inr rc" and
    gc: "py_truediv (gasUsed rc * gas_price w3 c) (10 ^ 18) = Inr gc" and
    syn: "synthesize rnd s (rng w) = Some (m, g5)" and
    r: "r = run_record idx label gc m" and
    w': "w' = w\<lparr>rng := g5, ledger := c\<rparr>"
    by blast
  from transact_ExecuteDecision[OF t] obtain st st' ev ret where
    st: "code (ledger w) ct = Some st" and
    ex: "executeDecision idx (id_s s) sender (block_timestamp w3 (ledger w)) st
           = Some (st', ev, ret)" and
    c: "c = (ledger w)\<lparr>code := (code (ledger w))(ct \<mapsto> st'),
                   txs := txs (ledger w) @ [(ExecuteDecision ct idx (id_s s) sender,
                      \<lparr>gasUsed = gas_of w3 (ExecuteDecision ct idx (id_s s) sender) (ledger w),
                       contractAddress = None, logs = [ev]\<rparr>)]\<rparr>"
    by blast
  from wt c have rc: "rc = \<lparr>gasUsed = gas_of w3 (ExecuteDecision ct idx (id_s s) sender) (ledger w),
                       contractAddress = None, logs = [ev]\<rparr>"
    by (simp add: wait_for_transaction_receipt_def split: if_splits)
  from w' have lw: "ledger w' = c" by simp
  show ?thesis
    using s st ex rc c gc syn r unfolding lw by blast
qed

lemma executeDecision_Some:
  assumes "executeDecision pid ver sender ts st = Some (st', ev, ret)"
  shows "decisionCount st' = decisionCount st + 1 \<and>
         decisions st' = (decisions st)(decisionCount st + 1 :=
            \<lparr>proposalId = pid, daoVersion = ver, timestamp = ts, executor = sender\<rparr>)"
  using assms by (auto simp: executeDecision_def Let_def split: if_splits)

lemma synthesize_bounds:
  assumes "synthesize rnd s g = Some (m, g')"
  shows "LATENCY_MIN \<le> m_lat m \<and> m_lat m \<le> LATENCY_MAX
       \<and> COMPLIANCE_MIN \<le> m_comp m \<and> m_comp m \<le> COMPLIANCE_MAX
       \<and> OFFCHAIN_MIN \<le> m_offchain m \<and> m_offchain m \<le> OFFCHAIN_MAX
       \<and> total_cost_mean s - 3 * total_cost_std s \<le> m_total m
       \<and> m_total m \<le> total_cost_mean s + 3 * total_cost_std s
       \<and> ROI_MIN \<le> m_roi m \<and> m_roi m \<le> ROI_MAX"
  using assms
  by (auto simp: synthesize_def split: Option.bind_splits prod.splits
           dest!: truncated_normal_bounds)

lemma DAO_STATS_cases:
  assumes "DAO_STATS label = Some s"
  shows "(label = ''DAO 1.0'' \<and> id_s s = 1 \<and> total_cost_mean s = 119000 \<and> total_cost_std s = 5600)
       \<or> (label = ''DAO 2.0'' \<and> id_s s = 2 \<and> total_cost_mean s = 90000 \<and> total_cost_std s = 4500)
       \<or> (label = ''DAO 3.0'' \<and> id_s s = 3 \<and> total_cost_mean s = 55000 \<and> total_cost_std s = 2600)"
  using assms by (auto simp: DAO_STATS_def DAO_STATS_items_def split: if_splits)

lemma total_bounds_integral:
  assumes "DAO_STATS label = Some s"
  shows "\<exists>L H. total_cost_mean s - 3 * total_cost_std s = of_int L
              \<and> total_cost_mean s + 3 * total_cost_std s = of_int H"
proof -
  from DAO_STATS_cases[OF assms]
  consider "total_cost_mean s = 119000 \<and> total_cost_std s = 5600"
    | "total_cost_mean s = 90000 \<and> total_cost_std s = 4500"
    | "total_cost_mean s = 55000 \<and> total_cost_std s = 2600" by blast
  then show ?thesis
  proof cases
    case 1
    then have "total_cost_mean s - 3 * total_cost_std s = of_int 102200
             \<and> total_cost_mean s + 3 * total_cost_std s = of_int 135800" by simp
    then show ?thesis by blast
  next
    case 2
    then have "total_cost_mean s - 3 * total_cost_std s = of_int 76500
             \<and> total_cost_mean s + 3 * total_cost_std s = of_int 103500" by simp
    then show ?thesis by blast
  next
    case 3
    then have "total_cost_mean s - 3 * total_cost_std s = of_int 47200
             \<and> total_cost_mean s + 3 * total_cost_std s = of_int 62800" by simp
    then show ?thesis by blast
  qed
qed

lemma simulate_one_bounded:
  assumes "simulate_one rnd w3 ct idx label sender w = Some (Inr r, w')"
  shows "row_bounded r"
proof -
  from simulate_one_Inr[OF assms] obtain s m g5 gc where
    s: "DAO_STATS label = Some s" and
    syn: "synthesize rnd s (rng w) = Some (m, g5)" and
    r: "r = run_record idx label gc m"
    by blast
  note b = synthesize_bounds[OF syn]
  have lat: "1.5 \<le> py_round (m_lat m) 2 \<and> py_round (m_lat m) 2 \<le> 19.0"
    using b py_round_lower[of "1.5" "m_lat m" 2 150] py_round_upper[of "m_lat m" "19.0" 2 1900]
    by (simp add: LATENCY_MIN_def LATENCY_MAX_def)
  have comp: "60 \<le> py_round (m_comp m) 1 \<and> py_round (m_comp m) 1 \<le> 100"
    using b py_round_lower[of 60 "m_comp m" 1 600] py_round_upper[of "m_comp m" 100 1 1000]
    by (simp add: COMPLIANCE_MIN_def COMPLIANCE_MAX_def)
  have roi: "-0.5 \<le> py_round (m_roi m) 2 \<and> py_round (m_roi m) 2 \<le> 9.0"
    using b py_round_lower[of "-0.5" "m_roi m" 2 "-50"] py_round_upper[of "m_roi m" "9.0" 2 900]
    by (simp add: ROI_MIN_def ROI_MAX_def)
  have off: "170 \<le> round_half_even (m_offchain m) \<and> round_half_even (m_offchain m) \<le> 420"
    using b round_half_even_lower[of 170 "m_offchain m"]
            round_half_even_upper[of "m_offchain m" 420]
    by (simp add: OFFCHAIN_MIN_def OFFCHAIN_MAX_def)
  from total_bounds_integral[OF s] obtain L H where
    LH: "total_cost_mean s - 3 * total_cost_std s = of_int L"
        "total_cost_mean s + 3 * total_cost_std s = of_int H" by blast
  have tot: "total_cost_mean s - 3 * total_cost_std s \<le> of_int (round_half_even (m_total m))
           \<and> of_int (round_half_even (m_total m)) \<le> total_cost_mean s + 3 * total_cost_std s"
    using b round_half_even_lower[of L "m_total m"] round_half_even_upper[of "m_total m" H]
    unfolding LH by simp
  show ?thesis
    unfolding row_bounded_def r cell_in_def run_record_fields
    using s lat comp roi off tot by simp
qed

lemma simulate_one_columns:
  assumes "simulate_one rnd w3 ct idx label sender w = Some (Inr r, w')"
  shows "map fst r = COLUMNS"
proof -
  from simulate_one_Inr[OF assms] obtain gc m where "r = run_record idx label gc m" by blast
  then show ?thesis by (simp add: run_record_def COLUMNS_def)
qed

lemma metric_fields_run_record: "metric_fields (run_record idx label gc m) = metric_cells m"
  by (simp add: metric_fields_def metric_cells_def run_record_fields)

subsection \<open>The run sequence\<close>

lemma length_concat_replicate: "length (concat (replicate k xs)) = k * length xs"
  by (induction k) simp_all

lemma nth_concat_replicate:
  "j < k * length xs \<Longrightarrow> concat (replicate k xs) ! j = xs ! (j mod length xs)"
proof (induction k arbitrary: j)
  case 0
  then show ?case by simp
next
  case (Suc k)
  show ?case
  proof (cases "j < length xs")
    case True
    then show ?thesis by (simp add: nth_append)
  next
    case False
    then have "j - length xs < k * length xs" using Suc.prems by simp
    from Suc.IH[OF this] False show ?thesis
      by (simp add: nth_append le_mod_geq)
  qed
qed

lemma length_dao_sequence: "length (dao_sequence n) = nat n"
proof (cases "0 \<le> n")
  case True
  have "n < (n div 3 + 1) * 3" by presburger
  then have "nat n \<le> nat (n div 3 + 1) * 3" using True
    by (metis less_imp_le nat_mono nat_mult_distrib nat_numeral pos_imp_zdiv_nonneg_iff
          add_nonneg_nonneg zero_le_one zero_less_numeral)
  then show ?thesis using True
    by (simp add: dao_sequence_def py_slice_to_def py_repeat_def length_concat_replicate)
next
  case False
  then have "n div 3 + 1 \<le> 0" by presburger
  then have "nat (n div 3 + 1) = 0" by simp
  then show ?thesis using False
    by (simp add: dao_sequence_def py_slice_to_def py_repeat_def)
qed

lemma nth_dao_sequence:
  assumes "k < nat n"
  shows "dao_sequence n ! k = [''DAO 1.0'', ''DAO 2.0'', ''DAO 3.0''] ! (k mod 3)"
proof -
  from assms have n: "0 \<le> n" by simp
  have "n < (n div 3 + 1) * 3" by presburger
  then have "nat n \<le> nat (n div 3 + 1) * 3" using n
    by (metis less_imp_le nat_mono nat_mult_distrib nat_numeral pos_imp_zdiv_nonneg_iff
          add_nonneg_nonneg zero_le_one zero_less_numeral)
  with assms have "k < nat (n div 3 + 1) * length [''DAO 1.0'', ''DAO 2.0'', ''DAO 3.0'']"
    by simp
  from nth_concat_replicate[OF this] assms n show ?thesis
    by (simp add: dao_sequence_def py_slice_to_def py_repeat_def)
qed

lemma length_upto_1: "length [1..n] = nat n"
  by (simp add: length_upto)

lemma nth_upto_1: "k < nat n \<Longrightarrow> [1..n] ! k = int k + 1"
  by (simp add: nth_upto)

lemma dao_sequence_cyclic:
  "dao_sequence n = map (\<lambda>i. [''DAO 1.0'', ''DAO 2.0'', ''DAO 3.0''] ! nat ((i - 1) mod 3)) [1..n]"
proof (rule nth_equalityI)
  show "length (dao_sequence n)
      = length (map (\<lambda>i. [''DAO 1.0'', ''DAO 2.0'', ''DAO 3.0''] ! nat ((i - 1) mod 3)) [1..n])"
    by (simp add: length_dao_sequence length_upto_1)
  fix k assume "k < length (dao_sequence n)"
  then have k: "k < nat n" by (simp add: length_dao_sequence)
  have "nat ((int k + 1 - 1) mod 3) = k mod 3"
    by (simp add: nat_mod_distrib)
  with k show "dao_sequence n ! k
      = map (\<lambda>i. [''DAO 1.0'', ''DAO 2.0'', ''DAO 3.0''] ! nat ((i - 1) mod 3)) [1..n] ! k"
    by (simp add: nth_dao_sequence length_upto_1 nth_upto_1)
qed

lemma labels_of_run:
  assumes "map (\<lambda>i. py_index (dao_sequence n) (i - 1)) [1..n] = map Inr labels"
  shows "labels = dao_sequence n"
proof (rule nth_equalityI)
  from assms have "length labels = length [1..n]" by (metis length_map)
  then show len: "length labels = length (dao_sequence n)"
    by (simp add: length_dao_sequence)
  fix k assume k: "k < length labels"
  with len have kn: "k < nat n" by (simp add: length_dao_sequence)
  from assms have "map (\<lambda>i. py_index (dao_sequence n) (i - 1)) [1..n] ! k = map Inr labels ! k"
    by simp
  with k kn have "py_index (dao_sequence n) (int k + 1 - 1) = Inr (labels ! k)"
    by (simp add: nth_upto_1)
  with kn show "labels ! k = dao_sequence n ! k"
    by (simp add: py_index_def length_dao_sequence split: if_splits)
qed

subsection \<open>The loop and the whole run\<close>

text \<open>The entry point is the general run at the two configuration constants of the module.\<close>

lemma run_full_constants:
  "run_full rnd w3 solc w0 = run_full_with 1000 42 rnd w3 solc w0"
  by (simp add: run_full_def NUM_RUNS_def RANDOM_SEED_def)

lemma run_loop_rows:
  assumes "run_loop rnd w3 ct seq sender is rows w = Some (Inr out, w')"
  shows "\<exists>new. out = rows @ new \<and>
           list_all2 (\<lambda>i r. \<exists>label w1 w2. py_index seq (i - 1) = Inr label \<and>
                        simulate_one rnd w3 ct i label sender w1 = Some (Inr r, w2)) is new"
  using assms
proof (induction "is" arbitrary: rows w)
  case Nil
  then show ?case by simp
next
  case (Cons i "is")
  from Cons.prems obtain label where l: "py_index seq (i - 1) = Inr label"
    by (auto split: sum.splits)
  from Cons.prems l obtain r w1 where
    one: "simulate_one rnd w3 ct i label sender w = Some (Inr r, w1)" and
    rest: "run_loop rnd w3 ct seq sender is (rows @ [r]) w1 = Some (Inr out, w')"
    by (auto split: option.splits sum.splits prod.splits)
  from Cons.IH[OF rest] obtain new where
    new: "out = (rows @ [r]) @ new"
      "list_all2 (\<lambda>i r. \<exists>label w1 w2. py_index seq (i - 1) = Inr label \<and>
                        simulate_one rnd w3 ct i label sender w1 = Some (Inr r, w2)) is new"
    by blast
  have "out = rows @ (r # new)" using new(1) by simp
  moreover have "list_all2 (\<lambda>i r. \<exists>label w1 w2. py_index seq (i - 1) = Inr label \<and>
                        simulate_one rnd w3 ct i label sender w1 = Some (Inr r, w2))
                   (i # is) (r # new)"
    using new(2) l one by auto
  ultimately show ?case by blast
qed

lemma run_loop_synthesize:
  assumes "run_loop rnd w3 ct seq sender is rows w = Some (Inr out, w')"
  shows "\<exists>labels ms gcs.
           map (\<lambda>i. py_index seq (i - 1)) is = map Inr labels \<and>
           synthesize_all rnd labels (rng w) = Some (ms, rng w') \<and>
           length labels = length is \<and> length ms = length is \<and> length gcs = length is \<and>
           out = rows @ map (\<lambda>k. run_record (is ! k) (labels ! k) (gcs ! k) (ms ! k))
                            [0..<length is]"
  using assms
proof (induction "is" arbitrary: rows w)
  case Nil
  then show ?case by simp
next
  case (Cons i "is")
  from Cons.prems obtain label where l: "py_index seq (i - 1) = Inr label"
    by (auto split: sum.splits)
  from Cons.prems l obtain r w1 where
    one: "simulate_one rnd w3 ct i label sender w = Some (Inr r, w1)" and
    rest: "run_loop rnd w3 ct seq sender is (rows @ [r]) w1 = Some (Inr out, w')"
    by (auto split: option.splits sum.splits prod.splits)
  from simulate_one_Inr[OF one] obtain s c m g5 gc where
    s: "DAO_STATS label = Some s" and
    syn: "synthesize rnd s (rng w) = Some (m, g5)" and
    r: "r = run_record i label gc m" and
    w1: "w1 = w\<lparr>rng := g5, ledger := c\<rparr>"
    by blast
  from Cons.IH[OF rest] obtain labels ms gcs where
    IH: "map (\<lambda>i. py_index seq (i - 1)) is = map Inr labels"
        "synthesize_all rnd labels (rng w1) = Some (ms, rng w')"
        "length labels = length is" "length ms = length is" "length gcs = length is"
        "out = (rows @ [r]) @ map (\<lambda>k. run_record (is ! k) (labels ! k) (gcs ! k) (ms ! k))
                            [0..<length is]"
    by blast
  let ?f = "\<lambda>k. run_record ((i # is) ! k) ((label # labels) ! k) ((gc # gcs) ! k) ((m # ms) ! k)"
  have "map ?f [0..<length (i # is)] = ?f 0 # map (\<lambda>k. ?f (Suc k)) [0..<length is]"
    by (simp add: upt_conv_Cons map_Suc_upt[symmetric] del: upt_Suc)
  then have out: "out = rows @ map ?f [0..<length (i # is)]"
    using IH(6) r by simp
  have "synthesize_all rnd (label # labels) (rng w) = Some (m # ms, rng w')"
    using s syn IH(2) w1 by simp
  moreover have "map (\<lambda>i. py_index seq (i - 1)) (i # is) = map Inr (label # labels)"
    using l IH(1) by simp
  ultimately show ?case
    using IH(3,4,5) out
    by (intro exI[of _ "label # labels"] exI[of _ "m # ms"] exI[of _ "gc # gcs"]) simp
qed

lemma run_loop_ledger:
  assumes "run_loop rnd w3 ct seq sender is rows w = Some (Inr out, w')"
      and "code (ledger w) ct = Some st"
  shows "\<exists>st' vs.
           length vs = length is \<and>
           (\<forall>k<length is. \<exists>label s. py_index seq (is ! k - 1) = Inr label \<and>
                             DAO_STATS label = Some s \<and> vs ! k = id_s s) \<and>
           map fst (txs (ledger w')) = map fst (txs (ledger w)) @
              map (\<lambda>k. ExecuteDecision ct (is ! k) (vs ! k) sender) [0..<length is] \<and>
           code (ledger w') ct = Some st' \<and>
           decisionCount st' = decisionCount st + int (length is) \<and>
           (\<forall>j. j \<le> decisionCount st \<longrightarrow> decisions st' j = decisions st j) \<and>
           (\<forall>k<length is.
              proposalId (decisions st' (decisionCount st + int k + 1)) = is ! k \<and>
              daoVersion (decisions st' (decisionCount st + int k + 1)) = vs ! k \<and>
              executor (decisions st' (decisionCount st + int k + 1)) = sender)"
  using assms
proof (induction "is" arbitrary: rows w st)
  case Nil
  then show ?case by simp
next
  case (Cons i "is")
  from Cons.prems obtain label where l: "py_index seq (i - 1) = Inr label"
    by (auto split: sum.splits)
  from Cons.prems l obtain r w1 where
    one: "simulate_one rnd w3 ct i label sender w = Some (Inr r, w1)" and
    rest: "run_loop rnd w3 ct seq sender is (rows @ [r]) w1 = Some (Inr out, w')"
    by (auto split: option.splits sum.splits prod.splits)
  from simulate_one_ledger[OF one] Cons.prems(2) obtain s st1 ev ret and rc :: receipt where
    s: "DAO_STATS label = Some s" and
    ex: "executeDecision i (id_s s) sender (block_timestamp w3 (ledger w)) st = Some (st1, ev, ret)" and
    lw1: "ledger w1 = (ledger w)\<lparr>code := (code (ledger w))(ct \<mapsto> st1),
                   txs := txs (ledger w) @ [(ExecuteDecision ct i (id_s s) sender, rc)]\<rparr>"
    by auto
  note e = executeDecision_Some[OF ex]
  have c1: "code (ledger w1) ct = Some st1" using lw1 by simp
  from Cons.IH[OF rest c1] obtain st' vs where IH:
    "length vs = length is"
    "\<forall>k<length is. \<exists>label s. py_index seq (is ! k - 1) = Inr label \<and>
                             DAO_STATS label = Some s \<and> vs ! k = id_s s"
    "map fst (txs (ledger w')) = map fst (txs (ledger w1)) @
              map (\<lambda>k. ExecuteDecision ct (is ! k) (vs ! k) sender) [0..<length is]"
    "code (ledger w') ct = Some st'"
    "decisionCount st' = decisionCount st1 + int (length is)"
    "\<forall>j. j \<le> decisionCount st1 \<longrightarrow> decisions st' j = decisions st1 j"
    "\<forall>k<length is.
              proposalId (decisions st' (decisionCount st1 + int k + 1)) = is ! k \<and>
              daoVersion (decisions st' (decisionCount st1 + int k + 1)) = vs ! k \<and>
              executor (decisions st' (decisionCount st1 + int k + 1)) = sender"
    by blast
  let ?vs = "id_s s # vs"
  let ?f = "\<lambda>k. ExecuteDecision ct ((i # is) ! k) (?vs ! k) sender"
  have len: "length ?vs = length (i # is)" using IH(1) by simp
  have labs: "\<forall>k<length (i # is). \<exists>label s. py_index seq ((i # is) ! k - 1) = Inr label \<and>
                             DAO_STATS label = Some s \<and> ?vs ! k = id_s s"
    using IH(2) l s by (auto simp: nth_Cons split: nat.splits)
  have "map ?f [0..<length (i # is)] = ?f 0 # map (\<lambda>k. ?f (Suc k)) [0..<length is]"
    by (simp add: upt_conv_Cons map_Suc_upt[symmetric] del: upt_Suc)
  then have txs: "map fst (txs (ledger w')) = map fst (txs (ledger w)) @
              map ?f [0..<length (i # is)]"
    using IH(3) lw1 by simp
  have cnt: "decisionCount st' = decisionCount st + int (length (i # is))"
    using IH(5) e by simp
  have old: "\<forall>j. j \<le> decisionCount st \<longrightarrow> decisions st' j = decisions st j"
    using IH(6) e by simp
  have new: "\<forall>k<length (i # is).
              proposalId (decisions st' (decisionCount st + int k + 1)) = (i # is) ! k \<and>
              daoVersion (decisions st' (decisionCount st + int k + 1)) = ?vs ! k \<and>
              executor (decisions st' (decisionCount st + int k + 1)) = sender"
  proof (intro allI impI)
    fix k assume k: "k < length (i # is)"
    show "proposalId (decisions st' (decisionCount st + int k + 1)) = (i # is) ! k \<and>
          daoVersion (decisions st' (decisionCount st + int k + 1)) = ?vs ! k \<and>
          executor (decisions st' (decisionCount st + int k + 1)) = sender"
    proof (cases k)
      case 0
      have "decisions st' (decisionCount st + 1) = decisions st1 (decisionCount st + 1)"
        using IH(6) e by simp
      with e 0 show ?thesis by simp
    next
      case (Suc k')
      with k have "k' < length is" by simp
      with IH(7) have
        "proposalId (decisions st' (decisionCount st1 + int k' + 1)) = is ! k' \<and>
         daoVersion (decisions st' (decisionCount st1 + int k' + 1)) = vs ! k' \<and>
         executor (decisions st' (decisionCount st1 + int k' + 1)) = sender" by blast
      moreover have "decisionCount st1 + int k' + 1 = decisionCount st + int k + 1"
        using e Suc by simp
      ultimately show ?thesis using Suc by simp
    qed
  qed
  show ?case
    using len labs txs IH(4) cnt old new
    by (intro exI[of _ st'] exI[of _ ?vs]) blast
qed

lemma deploy_contract_rng:
  "deploy_contract w3 ab sender w = (res, w1) \<Longrightarrow> rng w1 = rng w"
  by (auto simp: deploy_contract_def Let_def split: sum.splits prod.splits option.splits)

lemma deploy_contract_Inr:
  assumes "deploy_contract w3 ab sender w = (Inr ct, w1)"
  shows "code (ledger w1) ct = Some DAOGovernance_init
       \<and> map fst (txs (ledger w1)) = map fst (txs (ledger w)) @ [Deploy sender]
       \<and> rng w1 = rng w"
proof -
  from assms obtain h c where
    t: "transact w3 (Deploy sender) (ledger w) = Inr (h, c)"
    by (auto simp: deploy_contract_def split: sum.splits)
  then have h: "h = length (txs (ledger w))"
    and c: "c = (ledger w)\<lparr>code := (code (ledger w))(fresh_address w3 (ledger w) \<mapsto> DAOGovernance_init),
                 txs := txs (ledger w) @ [(Deploy sender,
                    \<lparr>gasUsed = gas_of w3 (Deploy sender) (ledger w),
                     contractAddress = Some (fresh_address w3 (ledger w)), logs = []\<rparr>)]\<rparr>"
    by (auto simp: transact_def Let_def split: if_splits)
  from assms t obtain rc :: receipt where
    rc: "wait_for_transaction_receipt w3 h c = Inr rc"
    by (auto simp: deploy_contract_def Let_def split: sum.splits)
  with h c have rc': "contractAddress rc = Some (fresh_address w3 (ledger w))"
    by (auto simp: wait_for_transaction_receipt_def split: if_splits)
  from assms t rc rc' have "ct = fresh_address w3 (ledger w)" and "w1 = w\<lparr>ledger := c\<rparr>"
    by (simp_all add: deploy_contract_def Let_def)
  with c show ?thesis by simp
qed

lemma run_full_with_InrE:
  assumes "run_full_with n sd rnd w3 solc w0 = Some (Inr rows, w')"
  obtains ct w1 where
    "is_connected w3 (ledger w0)"
    "accounts w3 (ledger w0) \<noteq> []"
    "solc = Inr ()"
    "deploy_contract w3 () (hd (accounts w3 (ledger w0))) (set_seed rnd sd w0) = (Inr ct, w1)"
    "run_loop rnd w3 ct (dao_sequence n) (hd (accounts w3 (ledger w0))) [1..n] [] w1
       = Some (Inr rows, w')"
proof -
  let ?w = "set_seed rnd sd w0"
  have lw: "ledger ?w = ledger w0" by (simp add: set_seed_def)
  from assms have conn: "is_connected w3 (ledger w0)"
    by (simp add: run_full_with_def connect_ganache_def Let_def lw split: if_splits)
  with assms have acc: "accounts w3 (ledger w0) \<noteq> []"
    by (simp add: run_full_with_def connect_ganache_def Let_def lw split: if_splits)
  from assms conn acc have solc: "solc = Inr ()"
    by (cases solc) (simp_all add: run_full_with_def connect_ganache_def compile_contract_def Let_def lw)
  obtain res w1 where d: "deploy_contract w3 () (hd (accounts w3 (ledger w0))) ?w = (res, w1)"
    by (cases "deploy_contract w3 () (hd (accounts w3 (ledger w0))) ?w")
  from assms conn acc solc d obtain ct where ct: "res = Inr ct"
    by (cases res) (simp_all add: run_full_with_def connect_ganache_def compile_contract_def Let_def lw)
  from assms conn acc solc d ct have
    "run_loop rnd w3 ct (dao_sequence n) (hd (accounts w3 (ledger w0))) [1..n] [] w1
       = Some (Inr rows, w')"
    by (simp add: run_full_with_def connect_ganache_def compile_contract_def Let_def lw)
  with that conn acc solc d ct show thesis by blast
qed

lemma run_full_with_rows:
  assumes "run_full_with n sd rnd w3 solc w0 = Some (Inr rows, w')"
  shows "\<exists>ms gcs.
           synthesize_all rnd (dao_sequence n) (seed rnd sd) = Some (ms, rng w') \<and>
           length ms = nat n \<and> length gcs = nat n \<and>
           rows = map (\<lambda>k. run_record (int k + 1) (dao_sequence n ! k) (gcs ! k) (ms ! k))
                      [0..<nat n]"
proof -
  from assms obtain ct w1 where
    d: "deploy_contract w3 () (hd (accounts w3 (ledger w0))) (set_seed rnd sd w0) = (Inr ct, w1)"
    and loop: "run_loop rnd w3 ct (dao_sequence n) (hd (accounts w3 (ledger w0))) [1..n] [] w1
       = Some (Inr rows, w')"
    by (rule run_full_with_InrE)
  from deploy_contract_rng[OF d] have g: "rng w1 = seed rnd sd" by (simp add: set_seed_def)
  from run_loop_synthesize[OF loop] obtain labels ms gcs where
    L: "map (\<lambda>i. py_index (dao_sequence n) (i - 1)) [1..n] = map Inr labels"
       "synthesize_all rnd labels (rng w1) = Some (ms, rng w')"
       "length ms = length [1..n]" "length gcs = length [1..n]"
       "rows = [] @ map (\<lambda>k. run_record ([1..n] ! k) (labels ! k) (gcs ! k) (ms ! k))
                            [0..<length [1..n]]"
    by blast
  from labels_of_run[OF L(1)] have lab: "labels = dao_sequence n" .
  have "rows = map (\<lambda>k. run_record (int k + 1) (dao_sequence n ! k) (gcs ! k) (ms ! k))
                      [0..<nat n]"
    using L(5) lab by (simp add: length_upto_1 nth_upto_1 add.commute)
  with L(2,3,4) lab g show ?thesis by (auto simp: length_upto_1)
qed

lemma run_full_with_bounded:
  assumes "run_full_with n sd rnd w3 solc w0 = Some (Inr rows, w')" "r \<in> set rows"
  shows "row_bounded r"
proof -
  from assms(1) obtain ct w1 where
    "run_loop rnd w3 ct (dao_sequence n) (hd (accounts w3 (ledger w0))) [1..n] [] w1
       = Some (Inr rows, w')"
    by (rule run_full_with_InrE)
  from run_loop_rows[OF this] have
    "list_all2 (\<lambda>i r. \<exists>label w1 w2. py_index (dao_sequence n) (i - 1) = Inr label \<and>
        simulate_one rnd w3 ct i label (hd (accounts w3 (ledger w0))) w1 = Some (Inr r, w2))
      [1..n] rows" by simp
  with assms(2) obtain i label wa wb where
    "simulate_one rnd w3 ct i label (hd (accounts w3 (ledger w0))) wa = Some (Inr r, wb)"
    by (auto simp: in_set_conv_nth list_all2_conv_all_nth)
  then show ?thesis by (rule simulate_one_bounded)
qed

lemma run_full_with_ids_labels:
  assumes "run_full_with n sd rnd w3 solc w0 = Some (Inr rows, w')"
  shows "map (\<lambda>r. map_of r ''Simulation ID'') rows = map (\<lambda>i. Some (PyInt i)) [1..n]"
    and "map (\<lambda>r. map_of r ''DAO Gen'') rows = map (\<lambda>l. Some (PyStr l)) (dao_sequence n)"
proof -
  from run_full_with_rows[OF assms] obtain ms gcs where
    rows: "rows = map (\<lambda>k. run_record (int k + 1) (dao_sequence n ! k) (gcs ! k) (ms ! k))
                      [0..<nat n]"
    by blast
  show "map (\<lambda>r. map_of r ''Simulation ID'') rows = map (\<lambda>i. Some (PyInt i)) [1..n]"
    unfolding rows
    by (rule nth_equalityI) (simp_all add: run_record_fields length_upto_1 nth_upto_1)
  show "map (\<lambda>r. map_of r ''DAO Gen'') rows = map (\<lambda>l. Some (PyStr l)) (dao_sequence n)"
    unfolding rows
    by (rule nth_equalityI) (simp_all add: run_record_fields length_dao_sequence)
qed

lemma run_full_with_metric_fields:
  assumes "run_full_with n sd rnd w3 solc w0 = Some (Inr rows, w')"
  shows "\<exists>ms. synthesize_all rnd (dao_sequence n) (seed rnd sd) = Some (ms, rng w') \<and>
              map metric_fields rows = map metric_cells ms"
proof -
  from run_full_with_rows[OF assms] obtain ms gcs where
    syn: "synthesize_all rnd (dao_sequence n) (seed rnd sd) = Some (ms, rng w')" and
    len: "length ms = nat n" and
    rows: "rows = map (\<lambda>k. run_record (int k + 1) (dao_sequence n ! k) (gcs ! k) (ms ! k))
                      [0..<nat n]"
    by blast
  have "map metric_fields rows = map (\<lambda>k. metric_cells (ms ! k)) [0..<length ms]"
    unfolding rows len by (simp add: metric_fields_run_record)
  also have "\<dots> = map metric_cells ms"
    by (rule nth_equalityI) simp_all
  finally show ?thesis using syn by blast
qed

lemma run_full_with_ledger:
  assumes "run_full_with n sd rnd w3 solc w0 = Some (Inr rows, w')"
  shows "\<exists>ct st vs.
       length vs = nat n
     \<and> (\<forall>k<nat n. \<exists>s. DAO_STATS (dao_sequence n ! k) = Some s \<and> vs ! k = id_s s)
     \<and> map fst (txs (ledger w')) = map fst (txs (ledger w0))
          @ Deploy (hd (accounts w3 (ledger w0)))
          # map (\<lambda>k. ExecuteDecision ct (int k + 1) (vs ! k) (hd (accounts w3 (ledger w0))))
                [0..<nat n]
     \<and> code (ledger w') ct = Some st \<and> decisionCount st = int (nat n)
     \<and> (\<forall>k<nat n. proposalId (decisions st (int k + 1)) = int k + 1
                 \<and> daoVersion (decisions st (int k + 1)) = vs ! k)"
proof -
  let ?sender = "hd (accounts w3 (ledger w0))"
  from assms obtain ct w1 where
    d: "deploy_contract w3 () ?sender (set_seed rnd sd w0) = (Inr ct, w1)"
    and loop: "run_loop rnd w3 ct (dao_sequence n) ?sender [1..n] [] w1 = Some (Inr rows, w')"
    by (rule run_full_with_InrE)
  from deploy_contract_Inr[OF d] have
    c1: "code (ledger w1) ct = Some DAOGovernance_init" and
    t1: "map fst (txs (ledger w1)) = map fst (txs (ledger w0)) @ [Deploy ?sender]"
    by (simp_all add: set_seed_def)
  from run_loop_ledger[OF loop c1] obtain st vs where L:
    "length vs = length [1..n]"
    "\<forall>k<length [1..n]. \<exists>label s. py_index (dao_sequence n) ([1..n] ! k - 1) = Inr label \<and>
                             DAO_STATS label = Some s \<and> vs ! k = id_s s"
    "map fst (txs (ledger w')) = map fst (txs (ledger w1)) @
              map (\<lambda>k. ExecuteDecision ct ([1..n] ! k) (vs ! k) ?sender) [0..<length [1..n]]"
    "code (ledger w') ct = Some st"
    "decisionCount st = decisionCount DAOGovernance_init + int (length [1..n])"
    "\<forall>k<length [1..n].
        proposalId (decisions st (decisionCount DAOGovernance_init + int k + 1)) = [1..n] ! k \<and>
        daoVersion (decisions st (decisionCount DAOGovernance_init + int k + 1)) = vs ! k \<and>
        executor (decisions st (decisionCount DAOGovernance_init + int k + 1)) = ?sender"
    by blast
  have z: "decisionCount DAOGovernance_init = 0" by (simp add: DAOGovernance_init_def)
  have len: "length vs = nat n" using L(1) by (simp add: length_upto_1)
  have labs: "\<forall>k<nat n. \<exists>s. DAO_STATS (dao_sequence n ! k) = Some s \<and> vs ! k = id_s s"
  proof (intro allI impI)
    fix k assume k: "k < nat n"
    with L(2) obtain label s where
      "py_index (dao_sequence n) ([1..n] ! k - 1) = Inr label"
      "DAO_STATS label = Some s" "vs ! k = id_s s"
      by (auto simp: length_upto_1)
    moreover from this(1) k have "label = dao_sequence n ! k"
      by (simp add: nth_upto_1 py_index_def length_dao_sequence split: if_splits)
    ultimately show "\<exists>s. DAO_STATS (dao_sequence n ! k) = Some s \<and> vs ! k = id_s s" by blast
  qed
  have txs: "map fst (txs (ledger w')) = map fst (txs (ledger w0))
          @ Deploy ?sender
          # map (\<lambda>k. ExecuteDecision ct (int k + 1) (vs ! k) ?sender) [0..<nat n]"
    using L(3) t1 by (simp add: length_upto_1 nth_upto_1)
  have cnt: "decisionCount st = int (nat n)" using L(5) z by (simp add: length_upto_1)
  have dec: "\<forall>k<nat n. proposalId (decisions st (int k + 1)) = int k + 1
                 \<and> daoVersion (decisions st (int k + 1)) = vs ! k"
    using L(6) z by (simp add: length_upto_1 nth_upto_1)
  from len labs txs L(4) cnt dec show ?thesis by blast
qed

lemma run_full_with_no_ledger:
  assumes "\<not> is_connected w3 (ledger w0) \<or> accounts w3 (ledger w0) = []"
  shows "run_full_with n sd rnd w3 solc w0
       = Some (Inl (if \<not> is_connected w3 (ledger w0)
                    then ConnectionError ''Could not connect to Ganache.''
                    else RuntimeError ''No accounts available in Ganache.''),
               w0\<lparr>rng := seed rnd sd\<rparr>)"
  using assms
  by (auto simp: run_full_with_def set_seed_def connect_ganache_def Let_def)

subsection \<open>Evaluation of the fixtures\<close>

lemmas eval_defs = z_const_def cheap_node_def run_full_with_def set_seed_def connect_ganache_def compile_contract_def
  deploy_contract_def transact_def wait_for_transaction_receipt_def stub_node_def stub_world_def
  stub_random_def z_cycle_def dao_sequence_def py_repeat_def py_slice_to_def py_index_def
  simulate_one_def DAO_STATS_def DAO_STATS_items_def functions_executeDecision_def
  executeDecision_def DAOGovernance_init_def UINT256_MAX_def UINT8_MAX_def
  LATENCY_MIN_def LATENCY_MAX_def COMPLIANCE_MIN_def COMPLIANCE_MAX_def
  OFFCHAIN_MEAN_def OFFCHAIN_STD_def OFFCHAIN_MIN_def OFFCHAIN_MAX_def ROI_MIN_def ROI_MAX_def
  COMPLIANCE_VIOLATION_THRESHOLD_def py_round_def round_half_even_def
  py_truediv_def round_to_double_def binary_exponent_def pow2_def bit_length.simps

lemmas draw_defs = z_const_def stub_random_def LATENCY_MIN_def LATENCY_MAX_def COMPLIANCE_MIN_def
  COMPLIANCE_MAX_def OFFCHAIN_MEAN_def OFFCHAIN_STD_def OFFCHAIN_MIN_def OFFCHAIN_MAX_def
  ROI_MIN_def ROI_MAX_def

lemmas float_defs = py_truediv_def round_to_double_def binary_exponent_def pow2_def
  bit_length.simps round_half_even_def Let_def

lemma DAO_STATS_2:
  "DAO_STATS ''DAO 2.0'' = Some s \<longleftrightarrow>
     s = \<lparr>id_s = 2, lat_mean = 9.4, lat_std = 1.0, comp_mean = 83.0, comp_std = 3.0,
          total_cost_mean = 90000, total_cost_std = 4500, roi_mean = 4.0, roi_std = 0.5\<rparr>"
  by (auto simp: DAO_STATS_def DAO_STATS_items_def)

lemma run2:
  "\<exists>w'. run_full_with 2 42 (stub_random z_cycle) (stub_node 20000000000) (Inr ()) stub_world
         = Some (Inr rows2, w')"
  by (simp add: eval_defs rows2_def Let_def truncated_normal.simps upto_rec1)

lemma run2_cheap:
  "\<exists>w'. run_full_with 2 42 (stub_random z_cycle)
           cheap_node (Inr ()) stub_world_deployed
         = Some (Inr rows2_cheap, w')"
  by (simp add: eval_defs rows2_cheap_def stub_world_deployed_def Let_def
        truncated_normal.simps upto_rec1)

lemma sim_at_80:
  "\<exists>w'. simulate_one (stub_random (z_const (-1))) (stub_node 20000000000) 100 2 ''DAO 2.0'' 7
           stub_world_deployed = Some (Inr row_at_80, w')"
  by (simp add: eval_defs row_at_80_def stub_world_deployed_def Let_def truncated_normal.simps)

lemma sim_below_80:
  "\<exists>w'. simulate_one (stub_random (z_const (- (253 / 250)))) (stub_node 123456789) 100 2 ''DAO 2.0'' 7
           stub_world_deployed = Some (Inr row_below_80, w')"
  by (simp add: eval_defs row_below_80_def stub_world_deployed_def Let_def truncated_normal.simps)

lemma sim_gas_tie:
  "\<exists>w'. simulate_one (stub_random (z_const (-1))) tie_node 100 2 ''DAO 2.0'' 7
           stub_world_deployed = Some (Inr row_gas_tie, w')"
  by (simp add: eval_defs tie_node_def row_gas_tie_def stub_world_deployed_def Let_def
        truncated_normal.simps)

lemma syn_at_80:
  assumes "DAO_STATS ''DAO 2.0'' = Some s"
  shows "synthesize (stub_random (z_const (-1))) s (0::nat)
     = Some (\<lparr>m_lat = 42 / 5, m_comp = 80, m_offchain = 260, m_total = 85500, m_roi = 7 / 2\<rparr>, 5)"
  unfolding assms[unfolded DAO_STATS_2]
  by (simp add: synthesize_def draw_defs truncated_normal.simps)

lemma syn_below_80:
  assumes "DAO_STATS ''DAO 2.0'' = Some s"
  shows "synthesize (stub_random (z_const (- (253 / 250)))) s (0::nat)
     = Some (\<lparr>m_lat = 2097 / 250, m_comp = 19991 / 250, m_offchain = 6488 / 25,
               m_total = 85446, m_roi = 1747 / 500\<rparr>, 5)"
  unfolding assms[unfolded DAO_STATS_2]
  by (simp add: synthesize_def draw_defs truncated_normal.simps)

lemma truediv_tie_21075:
  "py_truediv (21075 * 20000000000) (10 ^ 18) = Inr (242978207095893 / 576460752303423488)"
  by (simp add: float_defs)

subsection \<open>The claims\<close>

text \<open>
  C1. Every call of \<open>truncated_normal(mu, sigma, low, high)\<close> that returns, returns a value in
  \<open>[low, high]\<close>. Hence in every row of a completed run the stored latency lies in
  \<open>[1.5, 19.0]\<close>, the compliance in \<open>[60, 100]\<close>, the ROI in \<open>[-0.5, 9.0]\<close>, the off-chain
  cost in \<open>[170, 420]\<close>, and the total cost within three standard deviations of the mean of
  the profile of that row's generation.
\<close>

theorem run_rows_bounded:
  "(truncated_normal gss mu sigma low high g = Some (x, g') \<longrightarrow> low \<le> x \<and> x \<le> high)
   \<and> (run_full_with n sd rnd w3 solc w0 = Some (Inr rows, w')
        \<longrightarrow> (\<forall>r\<in>set rows. row_bounded r))"
proof (intro conjI impI ballI)
  assume "truncated_normal gss mu sigma low high g = Some (x, g')"
  from truncated_normal_bounds[OF this] show "low \<le> x" and "x \<le> high" by simp_all
next
  fix r
  assume "run_full_with n sd rnd w3 solc w0 = Some (Inr rows, w')" and "r \<in> set rows"
  then show "row_bounded r" by (rule run_full_with_bounded)
qed

theorem run_rows_bounded_witness:
  "truncated_normal (gauss (stub_random z_cycle)) 15.8 1.0 1.5 19 1 = Some (15.8, 3)
   \<and> (1.5::real) \<le> 15.8 \<and> (15.8::real) \<le> 19
   \<and> (\<exists>w'. run_full_with 2 42 (stub_random z_cycle) (stub_node 20000000000) (Inr ()) stub_world
             = Some (Inr rows2, w'))
   \<and> list_all row_bounded rows2"
proof -
  have tn: "truncated_normal (gauss (stub_random z_cycle)) 15.8 1.0 1.5 19 1 = Some (15.8, 3)"
    by (simp add: truncated_normal.simps stub_random_def z_cycle_def)
  from run2 obtain w' where
    run: "run_full_with 2 42 (stub_random z_cycle) (stub_node 20000000000) (Inr ()) stub_world
            = Some (Inr rows2, w')" ..
  from run_rows_bounded[THEN conjunct1, rule_format, OF tn]
  have "(1.5::real) \<le> 15.8 \<and> (15.8::real) \<le> 19" .
  moreover from run_rows_bounded[THEN conjunct2, rule_format, OF run]
  have "list_all row_bounded rows2" by (simp add: list_all_iff)
  ultimately show ?thesis using tn run by blast
qed

text \<open>
  C2. In the row of a run, Compliance Violation is \<open>Y\<close> exactly when the synthesized
  compliance is below 80.0 and \<open>N\<close> otherwise (so exactly 80.0 gives \<open>N\<close>), and Decision
  Outcome is \<open>Rejected\<close> exactly when the synthesized ROI is below 0 or the synthesized
  compliance is below 65, and \<open>Accepted\<close> otherwise. Nothing else enters the two fields.
\<close>

theorem outcome_fields_classified:
  assumes "simulate_one rnd w3 ct idx label sender w = Some (Inr r, w')"
  shows "\<exists>s m g'.
     DAO_STATS label = Some s \<and> synthesize rnd s (rng w) = Some (m, g') \<and>
     (map_of r ''Compliance Violation'' = Some (PyStr ''Y'') \<longleftrightarrow> m_comp m < 80.0) \<and>
     (map_of r ''Compliance Violation'' = Some (PyStr ''N'') \<longleftrightarrow> \<not> m_comp m < 80.0) \<and>
     (m_comp m = 80.0 \<longrightarrow> map_of r ''Compliance Violation'' = Some (PyStr ''N'')) \<and>
     (map_of r ''Decision Outcome'' = Some (PyStr ''Rejected'')
        \<longleftrightarrow> m_roi m < 0 \<or> m_comp m < 65) \<and>
     (map_of r ''Decision Outcome'' = Some (PyStr ''Accepted'')
        \<longleftrightarrow> \<not> (m_roi m < 0 \<or> m_comp m < 65))"
proof -
  from simulate_one_Inr[OF assms] obtain s m g5 gc where
    s: "DAO_STATS label = Some s" and
    syn: "synthesize rnd s (rng w) = Some (m, g5)" and
    r: "r = run_record idx label gc m"
    by blast
  have "(map_of r ''Compliance Violation'' = Some (PyStr ''Y'') \<longleftrightarrow> m_comp m < 80.0) \<and>
     (map_of r ''Compliance Violation'' = Some (PyStr ''N'') \<longleftrightarrow> \<not> m_comp m < 80.0) \<and>
     (m_comp m = 80.0 \<longrightarrow> map_of r ''Compliance Violation'' = Some (PyStr ''N'')) \<and>
     (map_of r ''Decision Outcome'' = Some (PyStr ''Rejected'')
        \<longleftrightarrow> m_roi m < 0 \<or> m_comp m < 65) \<and>
     (map_of r ''Decision Outcome'' = Some (PyStr ''Accepted'')
        \<longleftrightarrow> \<not> (m_roi m < 0 \<or> m_comp m < 65))"
    unfolding r run_record_fields by (simp add: COMPLIANCE_VIOLATION_THRESHOLD_def)
  with s syn show ?thesis by blast
qed

theorem outcome_fields_classified_witness:
  "(\<exists>w'. simulate_one (stub_random (z_const (-1))) (stub_node 20000000000) 100 2 ''DAO 2.0'' 7
           stub_world_deployed = Some (Inr row_at_80, w'))
   \<and> (\<exists>s m g'. DAO_STATS ''DAO 2.0'' = Some s
         \<and> synthesize (stub_random (z_const (-1))) s (rng stub_world_deployed) = Some (m, g')
         \<and> m_comp m = 80 \<and> m_roi m = 3.5
         \<and> map_of row_at_80 ''Compliance Violation'' = Some (PyStr ''N'')
         \<and> map_of row_at_80 ''Decision Outcome'' = Some (PyStr ''Accepted''))"
proof -
  from sim_at_80 obtain w' where
    sim: "simulate_one (stub_random (z_const (-1))) (stub_node 20000000000) 100 2 ''DAO 2.0'' 7
           stub_world_deployed = Some (Inr row_at_80, w')" ..
  from outcome_fields_classified[OF sim] obtain s m g' where
    s: "DAO_STATS ''DAO 2.0'' = Some s" and
    syn: "synthesize (stub_random (z_const (-1))) s (rng stub_world_deployed) = Some (m, g')" and
    v: "m_comp m = 80.0 \<longrightarrow> map_of row_at_80 ''Compliance Violation'' = Some (PyStr ''N'')" and
    d: "map_of row_at_80 ''Decision Outcome'' = Some (PyStr ''Accepted'')
        \<longleftrightarrow> \<not> (m_roi m < 0 \<or> m_comp m < 65)"
    by blast
  from syn syn_at_80[OF s] have m: "m_comp m = 80" "m_roi m = 3.5"
    by (auto simp: stub_world_deployed_def)
  with v d have "map_of row_at_80 ''Compliance Violation'' = Some (PyStr ''N'')"
    "map_of row_at_80 ''Decision Outcome'' = Some (PyStr ''Accepted'')" by simp_all
  with sim s syn m show ?thesis by blast
qed

text \<open>
  C3. For \<open>n \<ge> 0\<close> the label sequence has \<open>n\<close> elements, and run \<open>i\<close> of \<open>1..n\<close> gets the label
  at position \<open>(i - 1) mod 3\<close> of (DAO 1.0, DAO 2.0, DAO 3.0). The rows of a completed run
  carry the Simulation IDs \<open>1, 2, ..., n\<close> in this order and the labels of that sequence.
\<close>

theorem run_sequence_cyclic:
  "(0 \<le> n \<longrightarrow> int (length (dao_sequence n)) = n)
   \<and> dao_sequence n
       = map (\<lambda>i. [''DAO 1.0'', ''DAO 2.0'', ''DAO 3.0''] ! nat ((i - 1) mod 3)) [1..n]
   \<and> (run_full_with n sd rnd w3 solc w0 = Some (Inr rows, w') \<longrightarrow>
        map (\<lambda>r. map_of r ''Simulation ID'') rows = map (\<lambda>i. Some (PyInt i)) [1..n]
      \<and> map (\<lambda>r. map_of r ''DAO Gen'') rows = map (\<lambda>l. Some (PyStr l)) (dao_sequence n))"
  using dao_sequence_cyclic[of n] run_full_with_ids_labels[of n sd rnd w3 solc w0 rows w']
  by (simp add: length_dao_sequence)

theorem run_sequence_cyclic_witness:
  "(0::int) \<le> 2 \<and> int (length (dao_sequence 2)) = 2
   \<and> dao_sequence 2 = [''DAO 1.0'', ''DAO 2.0'']
   \<and> dao_sequence 7 = [''DAO 1.0'', ''DAO 2.0'', ''DAO 3.0'', ''DAO 1.0'', ''DAO 2.0'',
                         ''DAO 3.0'', ''DAO 1.0'']
   \<and> (\<exists>w'. run_full_with 2 42 (stub_random z_cycle) (stub_node 20000000000) (Inr ()) stub_world
             = Some (Inr rows2, w'))
   \<and> map (\<lambda>r. map_of r ''Simulation ID'') rows2 = [Some (PyInt 1), Some (PyInt 2)]
   \<and> map (\<lambda>r. map_of r ''DAO Gen'') rows2 = [Some (PyStr ''DAO 1.0''), Some (PyStr ''DAO 2.0'')]"
proof -
  from run2 obtain w' where
    run: "run_full_with 2 42 (stub_random z_cycle) (stub_node 20000000000) (Inr ()) stub_world
            = Some (Inr rows2, w')" ..
  note t = run_sequence_cyclic[of 2 42 "stub_random z_cycle" "stub_node 20000000000" "Inr ()" stub_world
             rows2 w']
  have seq: "dao_sequence 2 = [''DAO 1.0'', ''DAO 2.0'']"
    using t by (simp add: upto_rec1)
  have seq7: "dao_sequence 7 = [''DAO 1.0'', ''DAO 2.0'', ''DAO 3.0'', ''DAO 1.0'', ''DAO 2.0'',
                         ''DAO 3.0'', ''DAO 1.0'']"
    using run_sequence_cyclic[of 7, THEN conjunct2, THEN conjunct1] by (simp add: upto_rec1)
  from t run seq seq7 show ?thesis by (simp add: upto_rec1)
qed

text \<open>
  C4. Two completed runs with the same seed and the same number of runs hold the same
  synthesized metric fields (latency, compliance, off-chain cost, total cost, ROI), row by
  row, and leave the random stream in the same state, whatever the two ledgers, compiler
  outcomes and initial states are: the fields are those of \<open>synthesize_all\<close> on the stream
  as seeded, a function of the seed and the label sequence alone.
\<close>

theorem metrics_independent_of_ledger:
  assumes "run_full_with n sd rnd w3a solca wa = Some (Inr rowsa, wa')"
      and "run_full_with n sd rnd w3b solcb wb = Some (Inr rowsb, wb')"
  shows "map metric_fields rowsa = map metric_fields rowsb \<and> rng wa' = rng wb'
       \<and> (\<exists>ms. synthesize_all rnd (dao_sequence n) (seed rnd sd) = Some (ms, rng wa')
               \<and> map metric_fields rowsa = map metric_cells ms)"
  using run_full_with_metric_fields[OF assms(1)] run_full_with_metric_fields[OF assms(2)]
  by auto

theorem metrics_independent_of_ledger_witness:
  "(\<exists>w'. run_full_with 2 42 (stub_random z_cycle) (stub_node 20000000000) (Inr ()) stub_world
             = Some (Inr rows2, w'))
   \<and> (\<exists>w'. run_full_with 2 42 (stub_random z_cycle)
           cheap_node (Inr ()) stub_world_deployed
         = Some (Inr rows2_cheap, w'))
   \<and> rows2 \<noteq> rows2_cheap
   \<and> map metric_fields rows2 = map metric_fields rows2_cheap"
proof -
  from run2 obtain wa where
    a: "run_full_with 2 42 (stub_random z_cycle) (stub_node 20000000000) (Inr ()) stub_world
            = Some (Inr rows2, wa)" ..
  from run2_cheap obtain wb where
    b: "run_full_with 2 42 (stub_random z_cycle)
           cheap_node (Inr ()) stub_world_deployed
         = Some (Inr rows2_cheap, wb)" ..
  have "rows2 \<noteq> rows2_cheap" by (simp add: rows2_def rows2_cheap_def)
  with metrics_independent_of_ledger[OF a b] a b show ?thesis by blast
qed

text \<open>
  C5. One run appends exactly one transaction to the chain, the call
  \<open>executeDecision(idx, id)\<close> with \<open>id\<close> the id of the profile of the run's label, and the gas
  used in the row's gas cost (the double \<open>gasUsed * gas_price / 1e18\<close>, rounded to 6
  decimals) is that of the receipt of this transaction. A completed run
  of \<open>n\<close> runs has appended the deployment and then these \<open>n\<close> calls, for \<open>1, ..., n\<close> in order;
  the contract then holds \<open>n\<close> decisions, and for every row there is exactly one decision
  whose proposalId is the row's Simulation ID, its daoVersion being the profile id.
\<close>

theorem one_decision_per_run:
  "(simulate_one rnd w3 ct idx label sender w = Some (Inr r, w1) \<longrightarrow>
      (\<exists>s gc. \<exists>rc :: receipt.
          DAO_STATS label = Some s
        \<and> txs (ledger w1) = txs (ledger w) @ [(ExecuteDecision ct idx (id_s s) sender, rc)]
        \<and> map_of r ''Simulation ID'' = Some (PyInt idx)
        \<and> py_truediv (gasUsed rc * gas_price w3 (ledger w1)) (10 ^ 18) = Inr gc
        \<and> map_of r ''Gas Cost (ETH)'' = Some (PyFloat (py_round gc 6))))
   \<and> (run_full_with n sd rnd w3 solc w0 = Some (Inr rows, w') \<longrightarrow>
      (\<exists>ct st vs.
          length rows = nat n \<and> length vs = nat n
        \<and> (\<forall>k<nat n. \<exists>s. DAO_STATS (dao_sequence n ! k) = Some s \<and> vs ! k = id_s s)
        \<and> map fst (txs (ledger w')) = map fst (txs (ledger w0))
             @ Deploy (hd (accounts w3 (ledger w0)))
             # map (\<lambda>k. ExecuteDecision ct (int k + 1) (vs ! k) (hd (accounts w3 (ledger w0))))
                   [0..<nat n]
        \<and> code (ledger w') ct = Some st \<and> decisionCount st = int (nat n)
        \<and> (\<forall>k<nat n.
               map_of (rows ! k) ''Simulation ID'' = Some (PyInt (int k + 1))
             \<and> proposalId (decisions st (int k + 1)) = int k + 1
             \<and> daoVersion (decisions st (int k + 1)) = vs ! k
             \<and> (\<forall>j. 1 \<le> j \<and> j \<le> decisionCount st
                      \<and> proposalId (decisions st j) = int k + 1 \<longrightarrow> j = int k + 1))))"
proof (intro conjI impI)
  assume "simulate_one rnd w3 ct idx label sender w = Some (Inr r, w1)"
  from simulate_one_ledger[OF this] show
    "\<exists>s gc. \<exists>rc :: receipt.
          DAO_STATS label = Some s
        \<and> txs (ledger w1) = txs (ledger w) @ [(ExecuteDecision ct idx (id_s s) sender, rc)]
        \<and> map_of r ''Simulation ID'' = Some (PyInt idx)
        \<and> py_truediv (gasUsed rc * gas_price w3 (ledger w1)) (10 ^ 18) = Inr gc
        \<and> map_of r ''Gas Cost (ETH)'' = Some (PyFloat (py_round gc 6))"
    by (auto simp: run_record_fields)
next
  assume run: "run_full_with n sd rnd w3 solc w0 = Some (Inr rows, w')"
  from run_full_with_ledger[OF run] obtain ct st vs where L:
    "length vs = nat n"
    "\<forall>k<nat n. \<exists>s. DAO_STATS (dao_sequence n ! k) = Some s \<and> vs ! k = id_s s"
    "map fst (txs (ledger w')) = map fst (txs (ledger w0))
          @ Deploy (hd (accounts w3 (ledger w0)))
          # map (\<lambda>k. ExecuteDecision ct (int k + 1) (vs ! k) (hd (accounts w3 (ledger w0))))
                [0..<nat n]"
    "code (ledger w') ct = Some st" "decisionCount st = int (nat n)"
    "\<forall>k<nat n. proposalId (decisions st (int k + 1)) = int k + 1
                 \<and> daoVersion (decisions st (int k + 1)) = vs ! k"
    by blast
  from run_full_with_rows[OF run] obtain ms gcs where
    rows: "rows = map (\<lambda>k. run_record (int k + 1) (dao_sequence n ! k) (gcs ! k) (ms ! k))
                      [0..<nat n]"
    by blast
  have len: "length rows = nat n" unfolding rows by simp
  have each: "\<forall>k<nat n.
               map_of (rows ! k) ''Simulation ID'' = Some (PyInt (int k + 1))
             \<and> proposalId (decisions st (int k + 1)) = int k + 1
             \<and> daoVersion (decisions st (int k + 1)) = vs ! k
             \<and> (\<forall>j. 1 \<le> j \<and> j \<le> decisionCount st
                      \<and> proposalId (decisions st j) = int k + 1 \<longrightarrow> j = int k + 1)"
  proof (intro allI impI conjI)
    fix k assume k: "k < nat n"
    show "map_of (rows ! k) ''Simulation ID'' = Some (PyInt (int k + 1))"
      unfolding rows using k by (simp add: run_record_fields)
    from L(6) k show "proposalId (decisions st (int k + 1)) = int k + 1"
      and "daoVersion (decisions st (int k + 1)) = vs ! k" by simp_all
    fix j assume j: "1 \<le> j \<and> j \<le> decisionCount st \<and> proposalId (decisions st j) = int k + 1"
    then have "nat (j - 1) < nat n" using L(5) by (auto split: if_splits)
    with L(6) have "proposalId (decisions st (int (nat (j - 1)) + 1)) = int (nat (j - 1)) + 1"
      by blast
    with j show "j = int k + 1" by simp
  qed
  from len L(1,2,3,4,5) each show
    "\<exists>ct st vs.
          length rows = nat n \<and> length vs = nat n
        \<and> (\<forall>k<nat n. \<exists>s. DAO_STATS (dao_sequence n ! k) = Some s \<and> vs ! k = id_s s)
        \<and> map fst (txs (ledger w')) = map fst (txs (ledger w0))
             @ Deploy (hd (accounts w3 (ledger w0)))
             # map (\<lambda>k. ExecuteDecision ct (int k + 1) (vs ! k) (hd (accounts w3 (ledger w0))))
                   [0..<nat n]
        \<and> code (ledger w') ct = Some st \<and> decisionCount st = int (nat n)
        \<and> (\<forall>k<nat n.
               map_of (rows ! k) ''Simulation ID'' = Some (PyInt (int k + 1))
             \<and> proposalId (decisions st (int k + 1)) = int k + 1
             \<and> daoVersion (decisions st (int k + 1)) = vs ! k
             \<and> (\<forall>j. 1 \<le> j \<and> j \<le> decisionCount st
                      \<and> proposalId (decisions st j) = int k + 1 \<longrightarrow> j = int k + 1))"
    by blast
qed

theorem one_decision_per_run_witness:
  "(\<exists>w1. simulate_one (stub_random (z_const (-1))) (stub_node 20000000000) 100 2 ''DAO 2.0'' 7
           stub_world_deployed = Some (Inr row_at_80, w1)
        \<and> (\<exists>s. \<exists>rc :: receipt. DAO_STATS ''DAO 2.0'' = Some s \<and> id_s s = 2
              \<and> txs (ledger w1) = [(ExecuteDecision 100 2 2 7, rc)]))
   \<and> (\<exists>w'. run_full_with 2 42 (stub_random z_cycle) (stub_node 20000000000) (Inr ()) stub_world
             = Some (Inr rows2, w')
        \<and> (\<exists>ct st. map fst (txs (ledger w'))
                      = [Deploy 7, ExecuteDecision ct 1 1 7, ExecuteDecision ct 2 2 7]
              \<and> code (ledger w') ct = Some st \<and> decisionCount st = 2
              \<and> proposalId (decisions st 1) = 1 \<and> daoVersion (decisions st 1) = 1
              \<and> proposalId (decisions st 2) = 2 \<and> daoVersion (decisions st 2) = 2))"
proof -
  from sim_at_80 obtain w1 where
    sim: "simulate_one (stub_random (z_const (-1))) (stub_node 20000000000) 100 2 ''DAO 2.0'' 7
           stub_world_deployed = Some (Inr row_at_80, w1)" ..
  from one_decision_per_run[THEN conjunct1, rule_format, OF sim] obtain s and rc :: receipt where
    s: "DAO_STATS ''DAO 2.0'' = Some s" and
    t: "txs (ledger w1) = txs (ledger stub_world_deployed) @ [(ExecuteDecision 100 2 (id_s s) 7, rc)]"
    by blast
  from s have id2: "id_s s = 2" by (simp add: DAO_STATS_2)
  with t have t': "txs (ledger w1) = [(ExecuteDecision 100 2 2 7, rc)]"
    by (simp add: stub_world_deployed_def)
  from run2 obtain w' where
    run: "run_full_with 2 42 (stub_random z_cycle) (stub_node 20000000000) (Inr ()) stub_world
            = Some (Inr rows2, w')" ..
  from one_decision_per_run[THEN conjunct2, rule_format, OF run] obtain ct st vs where L:
    "length vs = nat 2"
    "\<forall>k<nat 2. \<exists>s. DAO_STATS (dao_sequence 2 ! k) = Some s \<and> vs ! k = id_s s"
    "map fst (txs (ledger w')) = map fst (txs (ledger stub_world))
          @ Deploy (hd (accounts (stub_node 20000000000) (ledger stub_world)))
          # map (\<lambda>k. ExecuteDecision ct (int k + 1) (vs ! k)
                        (hd (accounts (stub_node 20000000000) (ledger stub_world))))
                [0..<nat 2]"
    "code (ledger w') ct = Some st" "decisionCount st = int (nat 2)"
    "\<forall>k<nat 2. proposalId (decisions st (int k + 1)) = int k + 1
             \<and> daoVersion (decisions st (int k + 1)) = vs ! k"
    by blast
  have seq: "dao_sequence 2 = [''DAO 1.0'', ''DAO 2.0'']"
    by (simp add: dao_sequence_def py_slice_to_def py_repeat_def)
  from L(2)[rule_format, of 0] L(2)[rule_format, of 1] have vs: "vs ! 0 = 1" "vs ! 1 = 2"
    by (auto simp: seq DAO_STATS_def DAO_STATS_items_def)
  have two: "[0..<nat 2] = [0, 1]" by (simp add: upt_rec)
  from L(3) vs have txs: "map fst (txs (ledger w'))
      = [Deploy 7, ExecuteDecision ct 1 1 7, ExecuteDecision ct 2 2 7]"
    unfolding two by (simp add: stub_world_def stub_node_def)
  from L(6)[rule_format, of 0] L(6)[rule_format, of 1] vs have
    "proposalId (decisions st 1) = 1 \<and> daoVersion (decisions st 1) = 1
     \<and> proposalId (decisions st 2) = 2 \<and> daoVersion (decisions st 2) = 2" by simp
  with txs L(4,5) have ledger:
    "\<exists>ct st. map fst (txs (ledger w'))
                      = [Deploy 7, ExecuteDecision ct 1 1 7, ExecuteDecision ct 2 2 7]
              \<and> code (ledger w') ct = Some st \<and> decisionCount st = 2
              \<and> proposalId (decisions st 1) = 1 \<and> daoVersion (decisions st 1) = 1
              \<and> proposalId (decisions st 2) = 2 \<and> daoVersion (decisions st 2) = 2"
    by auto
  from s id2 t' have one:
    "\<exists>s. \<exists>rc :: receipt. DAO_STATS ''DAO 2.0'' = Some s \<and> id_s s = 2
              \<and> txs (ledger w1) = [(ExecuteDecision 100 2 2 7, rc)]" by blast
  from sim one have A:
    "\<exists>w1. simulate_one (stub_random (z_const (-1))) (stub_node 20000000000) 100 2 ''DAO 2.0'' 7
           stub_world_deployed = Some (Inr row_at_80, w1)
        \<and> (\<exists>s. \<exists>rc :: receipt. DAO_STATS ''DAO 2.0'' = Some s \<and> id_s s = 2
              \<and> txs (ledger w1) = [(ExecuteDecision 100 2 2 7, rc)])"
    by (intro exI[of _ w1] conjI)
  from run ledger have B:
    "\<exists>w'. run_full_with 2 42 (stub_random z_cycle) (stub_node 20000000000) (Inr ()) stub_world
             = Some (Inr rows2, w')
        \<and> (\<exists>ct st. map fst (txs (ledger w'))
                      = [Deploy 7, ExecuteDecision ct 1 1 7, ExecuteDecision ct 2 2 7]
              \<and> code (ledger w') ct = Some st \<and> decisionCount st = 2
              \<and> proposalId (decisions st 1) = 1 \<and> daoVersion (decisions st 1) = 1
              \<and> proposalId (decisions st 2) = 2 \<and> daoVersion (decisions st 2) = 2)"
    by (intro exI[of _ w'] conjI)
  from A B show ?thesis by (rule conjI)
qed

text \<open>
  C7, with the column names of the source. A row has ten fields with distinct names, in
  this order: Simulation ID, DAO Gen,
  Latency (s), Compliance (%), Gas Cost (ETH), Off-Chain Cost, Total Cost (AED), Decision
  Outcome, ROI (%), Compliance Violation; latency and ROI are stored rounded to 2 decimals,
  compliance to 1, the gas cost (the double quotient of line 177) to 6, off-chain and total
  cost to the nearest integer.
  A value rounded to \<open>nd\<close> decimals is a multiple of \<open>10^-nd\<close> at most half a unit of the
  last place away.
\<close>

theorem record_layout_source_columns:
  assumes "simulate_one rnd w3 ct idx label sender w = Some (Inr r, w')"
  shows "map fst r = COLUMNS \<and> length r = 10 \<and> distinct (map fst r)
     \<and> (\<exists>s m g' gc. \<exists>rc :: receipt.
           DAO_STATS label = Some s \<and> synthesize rnd s (rng w) = Some (m, g')
         \<and> rc = snd (last (txs (ledger w')))
         \<and> map_of r ''Latency (s)'' = Some (PyFloat (py_round (m_lat m) 2))
         \<and> map_of r ''Compliance (%)'' = Some (PyFloat (py_round (m_comp m) 1))
         \<and> py_truediv (gasUsed rc * gas_price w3 (ledger w')) (10 ^ 18) = Inr gc
         \<and> map_of r ''Gas Cost (ETH)'' = Some (PyFloat (py_round gc 6))
         \<and> map_of r ''Off-Chain Cost'' = Some (PyInt (round_half_even (m_offchain m)))
         \<and> map_of r ''Total Cost (AED)'' = Some (PyInt (round_half_even (m_total m)))
         \<and> map_of r ''ROI (%)'' = Some (PyFloat (py_round (m_roi m) 2)))
     \<and> py_round x nd * 10 ^ nd = of_int (round_half_even (x * 10 ^ nd))
     \<and> \<bar>py_round x nd - x\<bar> * 10 ^ nd \<le> 1 / 2
     \<and> \<bar>of_int (round_half_even x) - x\<bar> \<le> 1 / 2"
proof -
  from simulate_one_ledger[OF assms] obtain s m g5 t gc and rc :: receipt where
    s: "DAO_STATS label = Some s" and
    syn: "synthesize rnd s (rng w) = Some (m, g5)" and
    l: "txs (ledger w') = txs (ledger w) @ [(t, rc)]" and
    gc: "py_truediv (gasUsed rc * gas_price w3 (ledger w')) (10 ^ 18) = Inr gc" and
    r: "r = run_record idx label gc m"
    by auto
  from l have rc: "rc = snd (last (txs (ledger w')))" by simp
  have cols: "map fst r = COLUMNS" using assms by (rule simulate_one_columns)
  then have "length (map fst r) = 10" and "distinct (map fst r)"
    by (simp_all add: COLUMNS_def)
  then have shape: "length r = 10 \<and> distinct (map fst r)" by simp
  have cells: "\<exists>s m g' gc. \<exists>rc :: receipt.
           DAO_STATS label = Some s \<and> synthesize rnd s (rng w) = Some (m, g')
         \<and> rc = snd (last (txs (ledger w')))
         \<and> map_of r ''Latency (s)'' = Some (PyFloat (py_round (m_lat m) 2))
         \<and> map_of r ''Compliance (%)'' = Some (PyFloat (py_round (m_comp m) 1))
         \<and> py_truediv (gasUsed rc * gas_price w3 (ledger w')) (10 ^ 18) = Inr gc
         \<and> map_of r ''Gas Cost (ETH)'' = Some (PyFloat (py_round gc 6))
         \<and> map_of r ''Off-Chain Cost'' = Some (PyInt (round_half_even (m_offchain m)))
         \<and> map_of r ''Total Cost (AED)'' = Some (PyInt (round_half_even (m_total m)))
         \<and> map_of r ''ROI (%)'' = Some (PyFloat (py_round (m_roi m) 2))"
    using s syn rc gc unfolding r run_record_fields by blast
  from cols shape cells py_round_grid[of x nd] py_round_near[of x nd] round_half_even_near[of x]
  show ?thesis by blast
qed

theorem record_layout_source_columns_witness:
  "(\<exists>w'. simulate_one (stub_random (z_const (- (253 / 250)))) (stub_node 123456789) 100 2 ''DAO 2.0'' 7
           stub_world_deployed = Some (Inr row_below_80, w'))
   \<and> map fst row_below_80 = COLUMNS \<and> length row_below_80 = 10
   \<and> distinct (map fst row_below_80)
   \<and> py_round 8.388 2 * 10 ^ 2 = 839 \<and> \<bar>py_round 8.388 2 - 8.388\<bar> * 10 ^ 2 \<le> 1 / 2
   \<and> \<bar>of_int (round_half_even 259.52) - (259.52::real)\<bar> \<le> 1 / 2"
proof -
  from sim_below_80 obtain w' where
    sim: "simulate_one (stub_random (z_const (- (253 / 250)))) (stub_node 123456789) 100 2 ''DAO 2.0'' 7
           stub_world_deployed = Some (Inr row_below_80, w')" ..
  note t = record_layout_source_columns[OF sim, of "8.388" 2] record_layout_source_columns[OF sim, of "259.52" 0]
  have "round_half_even (8.388 * 10 ^ 2) = 839"
    by (simp add: round_half_even_def)
  with t sim show ?thesis by auto
qed

text \<open>
  C7 as the specification lists the columns. The fifth name of a row is \<open>Gas Cost (ETH)\<close>
  and the seventh \<open>Total Cost (AED)\<close>, where the specification has
  \<open>Gas Cost (native unit)\<close> and \<open>Total Cost\<close>: the names of a row produced by
  \<open>simulate_one\<close> are not the list of the specification.
\<close>

theorem spec_columns_counterexample:
  "map_option fst (simulate_one (stub_random (z_const (-1))) (stub_node 20000000000) 100 2
       ''DAO 2.0'' 7 stub_world_deployed) = Some (Inr row_at_80)
   \<and> map fst row_at_80 \<noteq> SPEC_COLUMNS
   \<and> map fst row_at_80 ! 4 = ''Gas Cost (ETH)'' \<and> SPEC_COLUMNS ! 4 = ''Gas Cost (native unit)''
   \<and> map fst row_at_80 ! 6 = ''Total Cost (AED)'' \<and> SPEC_COLUMNS ! 6 = ''Total Cost''"
proof -
  from sim_at_80 have
    "map_option fst (simulate_one (stub_random (z_const (-1))) (stub_node 20000000000) 100 2
       ''DAO 2.0'' 7 stub_world_deployed) = Some (Inr row_at_80)"
    by auto
  then show ?thesis by (simp add: row_at_80_def SPEC_COLUMNS_def)
qed

text \<open>
  C8. If the ledger is unreachable or has no account, \<open>run_full\<close> ends with an error
  (\<open>ConnectionError\<close>, respectively \<open>RuntimeError\<close>) before any run: there are no rows, the
  chain is as it was, so no transaction was submitted, and the random stream is in the
  state in which seeding left it, so no draw was made.
\<close>

theorem connectivity_failure_before_runs:
  assumes "\<not> is_connected w3 (ledger w0) \<or> accounts w3 (ledger w0) = []"
  shows "\<exists>e w'. run_full_with n sd rnd w3 solc w0 = Some (Inl e, w')
          \<and> e = (if \<not> is_connected w3 (ledger w0)
                  then ConnectionError ''Could not connect to Ganache.''
                  else RuntimeError ''No accounts available in Ganache.'')
          \<and> ledger w' = ledger w0
          \<and> rng w' = seed rnd sd"
  using run_full_with_no_ledger[OF assms, of n sd rnd solc] by simp

theorem connectivity_failure_before_runs_witness:
  "\<not> is_connected unreachable_node (ledger stub_world)
   \<and> map_option fst (run_full_with 2 42 (stub_random z_cycle)
         unreachable_node (Inr ()) stub_world)
       = Some (Inl (ConnectionError ''Could not connect to Ganache.''))
   \<and> map_option (txs \<circ> ledger \<circ> snd) (run_full_with 2 42 (stub_random z_cycle)
         unreachable_node (Inr ()) stub_world) = Some []
   \<and> map_option (rng \<circ> snd) (run_full_with 2 42 (stub_random z_cycle)
         unreachable_node (Inr ()) stub_world) = Some 42
   \<and> accounts no_account_node (ledger stub_world) = []
   \<and> map_option fst (run_full_with 2 42 (stub_random z_cycle)
         no_account_node (Inr ()) stub_world)
       = Some (Inl (RuntimeError ''No accounts available in Ganache.''))
   \<and> map_option (txs \<circ> ledger \<circ> snd) (run_full_with 2 42 (stub_random z_cycle)
         no_account_node (Inr ()) stub_world) = Some []
   \<and> map_option (rng \<circ> snd) (run_full_with 2 42 (stub_random z_cycle)
         no_account_node (Inr ()) stub_world) = Some 42"
proof -
  have a: "\<not> is_connected unreachable_node (ledger stub_world)
         \<or> accounts unreachable_node (ledger stub_world) = []"
    by (simp add: unreachable_node_def)
  have b: "\<not> is_connected no_account_node (ledger stub_world)
         \<or> accounts no_account_node (ledger stub_world) = []"
    by (simp add: no_account_node_def)
  have c: "is_connected no_account_node (ledger stub_world)"
    by (simp add: stub_node_def no_account_node_def)
  from connectivity_failure_before_runs[OF a, of 2 42 "stub_random z_cycle" "Inr ()"]
       connectivity_failure_before_runs[OF b, of 2 42 "stub_random z_cycle" "Inr ()"] c
  show ?thesis
    by (auto simp: stub_world_def stub_random_def unreachable_node_def no_account_node_def)
qed

text \<open>
  C9. The gas cost stored in a row is \<open>gasUsed * gas_price / 1e18\<close> rounded to 6 decimals,
  where \<open>gasUsed\<close> is read from the receipt of the transaction this run has appended and
  \<open>gas_price\<close> is the price of the network after that transaction. The product is an exact
  integer; the division is the division of doubles: the product is converted to the nearest
  double \<open>fp\<close> and \<open>fp / 1e18\<close> is rounded to the nearest double \<open>gc\<close>, each within a
  relative error of \<open>2^-53\<close>; only then is \<open>gc\<close> rounded to 6 decimals. At 50025 gas and
  gas price \<open>20 * 10^9\<close> the row holds 0.001001, where rounding the exact quotient
  0.0010005 would give 0.001.
\<close>

theorem gas_cost_from_receipt:
  assumes "simulate_one rnd w3 ct idx label sender w = Some (Inr r, w')"
  shows "\<exists>t fp gc. \<exists>rc :: receipt.
          txs (ledger w') = txs (ledger w) @ [(t, rc)]
        \<and> gasUsed rc = gas_of w3 t (ledger w)
        \<and> \<bar>gasUsed rc * gas_price w3 (ledger w')\<bar> < 2 ^ 1024 - 2 ^ 970
        \<and> fp = round_to_double (of_int (gasUsed rc * gas_price w3 (ledger w')))
        \<and> gc = round_to_double (fp / 10 ^ 18)
        \<and> \<bar>fp - of_int (gasUsed rc * gas_price w3 (ledger w'))\<bar>
              \<le> \<bar>of_int (gasUsed rc * gas_price w3 (ledger w'))\<bar> / 2 ^ 53
        \<and> \<bar>gc - fp / 10 ^ 18\<bar> \<le> \<bar>fp / 10 ^ 18\<bar> / 2 ^ 53
        \<and> map_of r ''Gas Cost (ETH)'' = Some (PyFloat (py_round gc 6))"
proof -
  from simulate_one_ledger[OF assms] obtain s st st' ev ret m g5 gc and rc :: receipt where
    "DAO_STATS label = Some s"
    "code (ledger w) ct = Some st"
    "executeDecision idx (id_s s) sender (block_timestamp w3 (ledger w)) st = Some (st', ev, ret)"
    and rc: "rc = \<lparr>gasUsed = gas_of w3 (ExecuteDecision ct idx (id_s s) sender) (ledger w),
          contractAddress = None, logs = [ev]\<rparr>"
    and l: "ledger w' = (ledger w)\<lparr>code := (code (ledger w))(ct \<mapsto> st'),
                   txs := txs (ledger w) @ [(ExecuteDecision ct idx (id_s s) sender, rc)]\<rparr>"
    and gc: "py_truediv (gasUsed rc * gas_price w3 (ledger w')) (10 ^ 18) = Inr gc"
    and "synthesize rnd s (rng w) = Some (m, g5)"
    and r: "r = run_record idx label gc m"
    by blast
  let ?p = "gasUsed rc * gas_price w3 (ledger w')"
  let ?fp = "round_to_double (of_int ?p)"
  from l have l': "txs (ledger w') = txs (ledger w) @ [(ExecuteDecision ct idx (id_s s) sender, rc)]"
    by simp
  from rc have g: "gasUsed rc = gas_of w3 (ExecuteDecision ct idx (id_s s) sender) (ledger w)"
    by simp
  from gc have small: "\<bar>?p\<bar> < 2 ^ 1024 - 2 ^ 970"
    and gc': "gc = round_to_double (?fp / 10 ^ 18)"
    by (simp_all add: py_truediv_def split: if_splits)
  have e1: "\<bar>?fp - of_int ?p\<bar> \<le> \<bar>of_int ?p\<bar> / 2 ^ 53"
    by (rule round_to_double_error)
  have e2: "\<bar>gc - ?fp / 10 ^ 18\<bar> \<le> \<bar>?fp / 10 ^ 18\<bar> / 2 ^ 53"
    unfolding gc' by (rule round_to_double_error)
  have c: "map_of r ''Gas Cost (ETH)'' = Some (PyFloat (py_round gc 6))"
    unfolding r by (simp add: run_record_fields)
  from l' g small gc' e1 e2 c show ?thesis
    by (intro exI[of _ "ExecuteDecision ct idx (id_s s) sender"] exI[of _ ?fp] exI[of _ gc]
          exI[of _ rc] conjI refl)
qed

theorem gas_cost_from_receipt_witness:
  "(\<exists>w'. simulate_one (stub_random (z_const (-1))) tie_node 100 2 ''DAO 2.0'' 7
           stub_world_deployed = Some (Inr row_gas_tie, w')
        \<and> (\<exists>t. \<exists>rc :: receipt. txs (ledger w') = [(t, rc)] \<and> gasUsed rc = 50025
             \<and> gas_price tie_node (ledger w') = 20000000000
             \<and> map_of row_gas_tie ''Gas Cost (ETH)''
                = Some (PyFloat (py_round
                    (round_to_double (round_to_double (50025 * 20000000000) / 10 ^ 18)) 6))))
   \<and> round_to_double (50025 * 20000000000) = 50025 * 20000000000
   \<and> round_to_double (50025 * 20000000000 / 10 ^ 18) = 2306995930718301 / 2305843009213693952
   \<and> py_round (2306995930718301 / 2305843009213693952) 6 = 1001 / 10 ^ 6
   \<and> py_round (50025 * 20000000000 / 10 ^ 18) 6 = 1000 / 10 ^ 6
   \<and> py_truediv (21075 * 20000000000) (10 ^ 18) = Inr (242978207095893 / 576460752303423488)
   \<and> py_round (242978207095893 / 576460752303423488) 6 = 421 / 10 ^ 6"
proof -
  from sim_gas_tie obtain w' where
    sim: "simulate_one (stub_random (z_const (-1))) tie_node 100 2 ''DAO 2.0'' 7
           stub_world_deployed = Some (Inr row_gas_tie, w')" ..
  from gas_cost_from_receipt[OF sim] obtain t fp gc and rc :: receipt where
    l: "txs (ledger w') = txs (ledger stub_world_deployed) @ [(t, rc)]" and
    g: "gasUsed rc = gas_of tie_node t (ledger stub_world_deployed)" and
    fp: "fp = round_to_double (of_int (gasUsed rc * gas_price tie_node (ledger w')))" and
    gc: "gc = round_to_double (fp / 10 ^ 18)" and
    c: "map_of row_gas_tie ''Gas Cost (ETH)'' = Some (PyFloat (py_round gc 6))"
    by blast
  have p: "gas_price tie_node (ledger w') = 20000000000"
    by (simp add: tie_node_def stub_node_def)
  from g have g': "gasUsed rc = 50025" by (simp add: tie_node_def)
  from l have l': "txs (ledger w') = [(t, rc)]" by (simp add: stub_world_deployed_def)
  from c have c': "map_of row_gas_tie ''Gas Cost (ETH)''
                = Some (PyFloat (py_round
                    (round_to_double (round_to_double (50025 * 20000000000) / 10 ^ 18)) 6))"
    unfolding gc fp p g' by simp
  have inner: "\<exists>t. \<exists>rc :: receipt. txs (ledger w') = [(t, rc)] \<and> gasUsed rc = 50025
             \<and> gas_price tie_node (ledger w') = 20000000000
             \<and> map_of row_gas_tie ''Gas Cost (ETH)''
                = Some (PyFloat (py_round
                    (round_to_double (round_to_double (50025 * 20000000000) / 10 ^ 18)) 6))"
    using l' g' p c' by (intro exI[of _ t] exI[of _ rc] conjI)
  from sim inner have first:
    "\<exists>w'. simulate_one (stub_random (z_const (-1))) tie_node 100 2 ''DAO 2.0'' 7
           stub_world_deployed = Some (Inr row_gas_tie, w')
        \<and> (\<exists>t. \<exists>rc :: receipt. txs (ledger w') = [(t, rc)] \<and> gasUsed rc = 50025
             \<and> gas_price tie_node (ledger w') = 20000000000
             \<and> map_of row_gas_tie ''Gas Cost (ETH)''
                = Some (PyFloat (py_round
                    (round_to_double (round_to_double (50025 * 20000000000) / 10 ^ 18)) 6)))"
    by (intro exI[of _ w'] conjI)
  have v1: "round_to_double (50025 * 20000000000) = 50025 * 20000000000"
    by (simp add: float_defs)
  have v2: "round_to_double (50025 * 20000000000 / 10 ^ 18)
              = 2306995930718301 / 2305843009213693952"
    by (simp add: float_defs)
  have v3: "py_round (2306995930718301 / 2305843009213693952) 6 = 1001 / 10 ^ 6"
    by (simp add: py_round_def round_half_even_def)
  have v4: "py_round (50025 * 20000000000 / 10 ^ 18) 6 = 1000 / 10 ^ 6"
    by (simp add: py_round_def round_half_even_def)
  have v5: "py_round (242978207095893 / 576460752303423488) 6 = 421 / 10 ^ 6"
    by (simp add: py_round_def round_half_even_def)
  from first v1 v2 v3 v4 truediv_tie_21075 v5 show ?thesis by (intro conjI)
qed

text \<open>
  C10. The two outcome fields are computed from the unrounded compliance and ROI, while the
  row stores the rounded values. So a row shows Compliance (%) = 80.0 together with
  Compliance Violation = \<open>Y\<close> whenever the unrounded compliance lies in \<open>[79.95, 80.0)\<close>.
\<close>

theorem outcome_uses_unrounded_values:
  assumes "simulate_one rnd w3 ct idx label sender w = Some (Inr r, w')"
  shows "\<exists>s m g'.
       DAO_STATS label = Some s \<and> synthesize rnd s (rng w) = Some (m, g')
     \<and> map_of r ''Compliance (%)'' = Some (PyFloat (py_round (m_comp m) 1))
     \<and> map_of r ''ROI (%)'' = Some (PyFloat (py_round (m_roi m) 2))
     \<and> map_of r ''Compliance Violation''
          = Some (PyStr (if m_comp m < 80.0 then ''Y'' else ''N''))
     \<and> map_of r ''Decision Outcome''
          = Some (PyStr (if m_roi m < 0 \<or> m_comp m < 65 then ''Rejected'' else ''Accepted''))
     \<and> (79.95 \<le> m_comp m \<and> m_comp m < 80.0 \<longrightarrow>
            map_of r ''Compliance (%)'' = Some (PyFloat 80.0)
          \<and> map_of r ''Compliance Violation'' = Some (PyStr ''Y''))"
proof -
  from simulate_one_Inr[OF assms] obtain s m g5 gc where
    s: "DAO_STATS label = Some s" and
    syn: "synthesize rnd s (rng w) = Some (m, g5)" and
    r: "r = run_record idx label gc m"
    by blast
  have edge: "79.95 \<le> m_comp m \<and> m_comp m < 80.0 \<longrightarrow>
            map_of r ''Compliance (%)'' = Some (PyFloat 80.0)
          \<and> map_of r ''Compliance Violation'' = Some (PyStr ''Y'')"
    unfolding r run_record_fields
    using py_round_compliance_edge[of "m_comp m"]
    by (simp add: COMPLIANCE_VIOLATION_THRESHOLD_def)
  have cells: "map_of r ''Compliance (%)'' = Some (PyFloat (py_round (m_comp m) 1))
     \<and> map_of r ''ROI (%)'' = Some (PyFloat (py_round (m_roi m) 2))
     \<and> map_of r ''Compliance Violation''
          = Some (PyStr (if m_comp m < 80.0 then ''Y'' else ''N''))
     \<and> map_of r ''Decision Outcome''
          = Some (PyStr (if m_roi m < 0 \<or> m_comp m < 65 then ''Rejected'' else ''Accepted''))"
    unfolding r run_record_fields by (simp add: COMPLIANCE_VIOLATION_THRESHOLD_def)
  from s syn cells edge show ?thesis by blast
qed

theorem outcome_uses_unrounded_values_witness:
  "(\<exists>w'. simulate_one (stub_random (z_const (- (253 / 250)))) (stub_node 123456789) 100 2 ''DAO 2.0'' 7
           stub_world_deployed = Some (Inr row_below_80, w'))
   \<and> (\<exists>s m g'. DAO_STATS ''DAO 2.0'' = Some s
         \<and> synthesize (stub_random (z_const (- (253 / 250)))) s (rng stub_world_deployed) = Some (m, g')
         \<and> m_comp m = 79.964 \<and> 79.95 \<le> m_comp m \<and> m_comp m < 80.0
         \<and> map_of row_below_80 ''Compliance (%)'' = Some (PyFloat 80.0)
         \<and> map_of row_below_80 ''Compliance Violation'' = Some (PyStr ''Y''))"
proof -
  from sim_below_80 obtain w' where
    sim: "simulate_one (stub_random (z_const (- (253 / 250)))) (stub_node 123456789) 100 2 ''DAO 2.0'' 7
           stub_world_deployed = Some (Inr row_below_80, w')" ..
  from outcome_uses_unrounded_values[OF sim] obtain s m g' where
    s: "DAO_STATS ''DAO 2.0'' = Some s" and
    syn: "synthesize (stub_random (z_const (- (253 / 250)))) s (rng stub_world_deployed) = Some (m, g')"
    and edge: "79.95 \<le> m_comp m \<and> m_comp m < 80.0 \<longrightarrow>
            map_of row_below_80 ''Compliance (%)'' = Some (PyFloat 80.0)
          \<and> map_of row_below_80 ''Compliance Violation'' = Some (PyStr ''Y'')"
    by blast
  from syn syn_below_80[OF s] have m: "m_comp m = 79.964"
    by (auto simp: stub_world_deployed_def)
  then have rg: "79.95 \<le> m_comp m \<and> m_comp m < 80.0" by simp
  with edge have e: "map_of row_below_80 ''Compliance (%)'' = Some (PyFloat 80.0)
          \<and> map_of row_below_80 ''Compliance Violation'' = Some (PyStr ''Y'')" by blast
  from s syn m rg e have inner:
    "\<exists>s m g'. DAO_STATS ''DAO 2.0'' = Some s
         \<and> synthesize (stub_random (z_const (- (253 / 250)))) s (rng stub_world_deployed) = Some (m, g')
         \<and> m_comp m = 79.964 \<and> 79.95 \<le> m_comp m \<and> m_comp m < 80.0
         \<and> map_of row_below_80 ''Compliance (%)'' = Some (PyFloat 80.0)
         \<and> map_of row_below_80 ''Compliance Violation'' = Some (PyStr ''Y'')"
    by (intro exI[of _ s] exI[of _ m] exI[of _ g']) simp
  from sim have "\<exists>w'. simulate_one (stub_random (z_const (- (253 / 250)))) (stub_node 123456789) 100 2
      ''DAO 2.0'' 7 stub_world_deployed = Some (Inr row_below_80, w')" by (rule exI)
  then show ?thesis using inner by (rule conjI)
qed

end
